theory Spec2Isabelle
  imports Main "HOL-Library.Sublist" "HOL-Library.AList"
begin

section \<open>PyLav setup script: data\<close>

text \<open>
  The script \<^verbatim>\<open>pylav_setup.py\<close> synchronises a set of plugins from a git repository
  into the folders of a running bot.  Everything it does is an effect on the file
  system, on the environment or on a child process, so the model threads a record of
  that world through every function.  Each fixed path of the script is a field of the
  record, typed by the way the script reads it: a JSON file by the document
  \<^verbatim>\<open>json.load\<close> returns on it, the commit file by its text, a folder by its entries.
  Strings are byte strings; permission and disk failures of the operating system are
  not represented.
\<close>

subsection \<open>JSON values and the Python operations on them\<close>

datatype json =
    JNull
  | JBool bool
  | JInt int
  | JFloat string
  | JStr string
  | JArr "json list"
  | JObj "(string \<times> json) list"

text \<open>
  \<open>JFloat\<close> carries the printed form of a float: the script never computes with
  numbers.  \<open>JObj\<close> is a dictionary in insertion order.
\<close>

datatype error =
    FileNotFoundError
  | NotADirectoryError
  | IsADirectoryError
  | JSONDecodeError
  | KeyError string
  | TypeError
  | AttributeError
  | CalledProcessError
  | OSError

definition thenE :: "error + 'a \<Rightarrow> ('a \<Rightarrow> error + 'b) \<Rightarrow> error + 'b" where
  "thenE m f = (case m of Inl e \<Rightarrow> Inl e | Inr x \<Rightarrow> f x)"

text \<open>\<^verbatim>\<open>d[k]\<close> for a string key.\<close>

fun getitem :: "json \<Rightarrow> string \<Rightarrow> error + json" where
  "getitem (JObj kvs) k = (case map_of kvs k of None \<Rightarrow> Inl (KeyError k) | Some v \<Rightarrow> Inr v)"
| "getitem _ k = Inl TypeError"

text \<open>
  \<^verbatim>\<open>k in d\<close> for a string \<open>k\<close>: key membership in a dictionary, element membership in
  a list, substring test in a string, \<^verbatim>\<open>TypeError\<close> on anything else.
\<close>

fun contains :: "string \<Rightarrow> json \<Rightarrow> error + bool" where
  "contains k (JObj kvs) = Inr (k \<in> fst ` set kvs)"
| "contains k (JArr xs) = Inr (JStr k \<in> set xs)"
| "contains k (JStr s) = Inr (sublist k s)"
| "contains k _ = Inl TypeError"

text \<open>\<^verbatim>\<open>d[k] = v\<close>: only a dictionary supports assignment under a string key.\<close>

fun setitem :: "json \<Rightarrow> string \<Rightarrow> json \<Rightarrow> error + json" where
  "setitem (JObj kvs) k v = Inr (JObj (AList.update k v kvs))"
| "setitem _ k v = Inl TypeError"

text \<open>
  \<^verbatim>\<open>d[k1]...[kn][k] = v\<close>: the inner dictionary is fetched along the keys and mutated
  in place.  A loaded document is a tree, so the mutation is the rebuilt document.
\<close>

fun setitem_at :: "string list \<Rightarrow> string \<Rightarrow> json \<Rightarrow> json \<Rightarrow> error + json" where
  "setitem_at [] k v d = setitem d k v"
| "setitem_at (p # ps) k v d =
     thenE (getitem d p) (\<lambda>child.
     thenE (setitem_at ps k v child) (\<lambda>child'.
     setitem d p child'))"

fun getitem_at :: "json \<Rightarrow> string list \<Rightarrow> error + json" where
  "getitem_at d [] = Inr d"
| "getitem_at d (p # ps) = thenE (getitem d p) (\<lambda>child. getitem_at child ps)"

text \<open>
  The characters of a UTF-8 text: a byte \<open>10xxxxxx\<close> continues the character that the
  byte before it started.
\<close>

definition continues :: "char \<Rightarrow> bool" where
  "continues c = (let n = (of_char c :: nat) in 128 \<le> n \<and> n < 192)"

function characters :: "string \<Rightarrow> string list" where
  "characters [] = []"
| "characters (c # cs) = (c # takeWhile continues cs) # characters (dropWhile continues cs)"
  by pat_completeness auto
termination
  by (relation "measure length") (auto simp: length_dropWhile_le less_Suc_eq_le)

text \<open>\<^verbatim>\<open>for x in d\<close>: the elements of a list, the keys of a dictionary, the characters of a string.\<close>

fun iter :: "json \<Rightarrow> error + json list" where
  "iter (JArr xs) = Inr xs"
| "iter (JObj kvs) = Inr (map (\<lambda>kv. JStr (fst kv)) kvs)"
| "iter (JStr s) = Inr (map JStr (characters s))"
| "iter _ = Inl TypeError"

fun hashable :: "json \<Rightarrow> bool" where
  "hashable (JArr _) = False"
| "hashable (JObj _) = False"
| "hashable _ = True"

fun is_str :: "json \<Rightarrow> bool" where
  "is_str (JStr _) = True"
| "is_str _ = False"

text \<open>
  \<^verbatim>\<open>str.upper\<close>, on UTF-8 text, as far as the comparison with the word \<^verbatim>\<open>JSON\<close> needs
  it.  An ASCII letter becomes its capital.  Of the characters outside ASCII, two
  have capitals made of letters of that word: the long s (bytes \<open>C5 BF\<close>) becomes
  \<^verbatim>\<open>S\<close> and the sharp s (bytes \<open>C3 9F\<close>) becomes \<^verbatim>\<open>SS\<close>.  Every other character outside
  ASCII is left as it is; its capital holds a character that is not a letter of
  \<^verbatim>\<open>JSON\<close>, so that the comparison is the same.
\<close>

definition upper_char :: "char \<Rightarrow> char" where
  "upper_char c =
     (let n = (of_char c :: nat) in if 97 \<le> n \<and> n \<le> 122 then char_of (n - 32) else c)"

fun upper :: "string \<Rightarrow> string" where
  "upper [] = []"
| "upper [c] = [upper_char c]"
| "upper (c # d # cs) =
     (if c = CHR 0xC5 \<and> d = CHR 0xBF then CHR ''S'' # upper cs
      else if c = CHR 0xC3 \<and> d = CHR 0x9F then CHR ''S'' # CHR ''S'' # upper cs
      else upper_char c # upper (d # cs))"

text \<open>A dictionary comprehension: a later pair with the same key overwrites the earlier one.\<close>

definition dict_of :: "('k \<times> 'v) list \<Rightarrow> ('k \<times> 'v) list" where
  "dict_of kvs = fold (\<lambda>kv acc. AList.update (fst kv) (snd kv) acc) kvs []"

subsection \<open>Files, folders and paths\<close>

text \<open>
  A file is known by what \<^verbatim>\<open>json.load\<close> does on it: it returns a document or raises
  \<^verbatim>\<open>JSONDecodeError\<close>.
\<close>

datatype jfile = Malformed | Doc json

fun json_load :: "jfile \<Rightarrow> error + json" where
  "json_load Malformed = Inl JSONDecodeError"
| "json_load (Doc d) = Inr d"

datatype node = File jfile | Dir "(string \<times> node) list"

fun is_dir :: "node \<Rightarrow> bool" where
  "is_dir (Dir _) = True"
| "is_dir (File _) = False"

type_synonym path = "string list"

definition RepoManagerSetting :: path where
  "RepoManagerSetting = [''data'', ''cogs'', ''RepoManager'', ''settings.json'']"

definition DownloaderSetting :: path where
  "DownloaderSetting = [''data'', ''cogs'', ''Downloader'', ''settings.json'']"

definition DownloaderLibFolder :: path where
  "DownloaderLibFolder = [''data'', ''cogs'', ''Downloader'', ''lib'']"

text \<open>The module rebinds \<^verbatim>\<open>RepoManagerRepoFolder\<close> when the storage is not JSON.\<close>

definition RepoManagerRepoFolder :: "bool \<Rightarrow> path" where
  "RepoManagerRepoFolder IS_JSON =
     (if IS_JSON then [''data'', ''cogs'', ''RepoManager'', ''repos'', ''pylav'']
      else [''data'', ''pylav'', ''cogs''])"

definition CogManagerCogFolder :: path where
  "CogManagerCogFolder = [''data'', ''cogs'', ''CogManager'', ''cogs'']"

definition PyLavHashFile :: path where
  "PyLavHashFile = [''data'', ''pylav'', ''.hashfile'']"

text \<open>\<^verbatim>\<open>Path.name\<close>: the last component.\<close>

definition name :: "path \<Rightarrow> string" where
  "name p = (if p = [] then [] else last p)"

subsection \<open>The world of one run\<close>

record pylav_folder =
  hashfile :: "string option"
  cogs_folder :: "(string \<times> node) list option"

datatype 'a result = Ok 'a | Raise error | Hangs

datatype child_state = Running | Exited | Killed

datatype handle = Popen_handle

datatype log_msg =
    CreatingRepoManagerSetting
  | UpdatingRepoManagerSetting
  | CreatingDownloaderSetting
  | UpdatingDownloaderSetting
  | UpdatingRepo
  | CloningRepo
  | Copying path path
  | InstallingRequirements "json set"
  | PipLine string
  | RequirementsInstalled
  | Skipping
  | UpToDate
  | CurrentCommit string
  | UpdatedDownloaderData json
  | WaitingForRequirements
  | Finished
  | Failed error

datatype event =
    Log log_msg
  | Mkdir path
  | Write path
  | Rmtree path
  | Copytree path path
  | Git
  | Popen "json set"
  | Wait
  | Kill
  | Terminate

text \<open>
  The fields: the process environment; the files and folders at the fixed paths
  (\<open>None\<close> or \<open>False\<close> when the path does not exist); what the external programs
  do in this run; the child process; and the effects performed so far, in order.
  \<^item> \<open>downloader_folder\<close> and \<open>repo_manager_folder\<close> say that the folders
    \<^verbatim>\<open>/data/cogs/Downloader\<close> and \<^verbatim>\<open>/data/cogs/RepoManager\<close> exist; a folder also
    exists when something below it does;
  \<^item> \<open>data_pylav\<close> is the folder \<^verbatim>\<open>/data/pylav\<close>, which holds the commit file and,
    when the storage is not JSON, the working copy \<^verbatim>\<open>/data/pylav/cogs\<close>;
  \<^item> \<open>repos_pylav\<close> is the working copy \<^verbatim>\<open>/data/cogs/RepoManager/repos/pylav\<close> of
    the JSON storage;
  \<^item> \<open>git_sync\<close> is the end of the git calls of \<^verbatim>\<open>clone_or_update_pylav_repo\<close>: they
    raise, hang, or leave the working copy with the given top-level entries and
    print the given \<^verbatim>\<open>HEAD\<close> (already decoded and stripped);
  \<^item> \<open>pip_spawn\<close> is the error of starting the installer, if any; \<open>pip_output\<close> the
    lines it prints, after which it closes its output or blocks for ever
    (\<open>pip_closes\<close>); \<open>pip_exits\<close> whether it ever exits.
\<close>

record world =
  environ :: "string \<rightharpoonup> string"
  config_json :: "jfile option"
  repo_manager_setting :: "jfile option"
  downloader_setting :: "jfile option"
  downloader_folder :: bool
  downloader_lib :: bool
  repo_manager_folder :: bool
  repos_pylav :: "(string \<times> node) list option"
  data_pylav :: "pylav_folder option"
  cog_manager_cogs :: "(string \<times> node) list option"
  git_sync :: "(string \<times> (string \<times> node) list) result"
  pip_spawn :: "error option"
  pip_output :: "string list"
  pip_closes :: bool
  pip_exits :: bool
  child :: "child_state option"
  trace :: "event list"

type_synonym 'a io = "world \<Rightarrow> 'a result \<times> world"

definition then_do :: "'a io \<Rightarrow> ('a \<Rightarrow> 'b io) \<Rightarrow> 'b io" where
  "then_do m f w =
     (case m w of
        (Ok x, w') \<Rightarrow> f x w'
      | (Raise e, w') \<Rightarrow> (Raise e, w')
      | (Hangs, w') \<Rightarrow> (Hangs, w'))"

definition done_io :: "unit io" where
  "done_io w = (Ok (), w)"

definition effect :: "event \<Rightarrow> world \<Rightarrow> world" where
  "effect ev w = w\<lparr>trace := trace w @ [ev]\<rparr>"

definition log_info :: "log_msg \<Rightarrow> world \<Rightarrow> world" where
  "log_info m w = effect (Log m) w"

text \<open>The folder that \<^verbatim>\<open>RepoManagerRepoFolder\<close> names, and its replacement.\<close>

definition working_copy :: "bool \<Rightarrow> world \<Rightarrow> (string \<times> node) list option" where
  "working_copy is_json w =
     (if is_json then repos_pylav w
      else (case data_pylav w of None \<Rightarrow> None | Some d \<Rightarrow> cogs_folder d))"

definition set_working_copy :: "bool \<Rightarrow> (string \<times> node) list \<Rightarrow> world \<Rightarrow> world" where
  "set_working_copy is_json es w =
     (if is_json then w\<lparr>repos_pylav := Some es\<rparr>
      else w\<lparr>data_pylav :=
        Some (case data_pylav w of
                None \<Rightarrow> \<lparr>hashfile = None, cogs_folder = Some es\<rparr>
              | Some d \<Rightarrow> d\<lparr>cogs_folder := Some es\<rparr>)\<rparr>)"

text \<open>A path is resolved below the working copy, where the plugins are.\<close>

definition lookup :: "bool \<Rightarrow> world \<Rightarrow> path \<Rightarrow> node option" where
  "lookup is_json w p =
     (if p \<noteq> [] \<and> butlast p = RepoManagerRepoFolder is_json
      then (case working_copy is_json w of None \<Rightarrow> None | Some es \<Rightarrow> map_of es (last p))
      else None)"

definition info_json :: "bool \<Rightarrow> world \<Rightarrow> path \<Rightarrow> node option" where
  "info_json is_json w cog =
     (case lookup is_json w cog of Some (Dir es) \<Rightarrow> map_of es ''info.json'' | _ \<Rightarrow> None)"

section \<open>The functions of the script\<close>

subsection \<open>Module level: the storage type\<close>

text \<open>
  \<^verbatim>\<open>STORAGE_TYPE = os.environ.get("STORAGE_TYPE")\<close>; when that is unset or empty the
  value is read from \<^verbatim>\<open>/data/config.json\<close>.  This runs when the module is loaded,
  before the main block.
\<close>

definition STORAGE_TYPE :: "world \<Rightarrow> error + json" where
  "STORAGE_TYPE w =
     (case environ w ''STORAGE_TYPE'' of
        Some s \<Rightarrow>
          if s \<noteq> [] then Inr (JStr s)
          else (case config_json w of
                  None \<Rightarrow> Inl FileNotFoundError
                | Some f \<Rightarrow> thenE (json_load f) (\<lambda>d. getitem_at d [''docker'', ''STORAGE_TYPE'']))
      | None \<Rightarrow>
          (case config_json w of
             None \<Rightarrow> Inl FileNotFoundError
           | Some f \<Rightarrow> thenE (json_load f) (\<lambda>d. getitem_at d [''docker'', ''STORAGE_TYPE''])))"

text \<open>\<^verbatim>\<open>IS_JSON = STORAGE_TYPE.upper() == "JSON"\<close>: only a string has \<^verbatim>\<open>upper\<close>.\<close>

definition IS_JSON :: "world \<Rightarrow> error + bool" where
  "IS_JSON w =
     thenE (STORAGE_TYPE w) (\<lambda>v.
       case v of JStr s \<Rightarrow> Inr (upper s = ''JSON'') | _ \<Rightarrow> Inl AttributeError)"

text \<open>
  The environment handed to git and to the installer, whose behaviour is a field of
  the world.
\<close>

definition get_git_env :: "world \<Rightarrow> (string \<rightharpoonup> string)" where
  "get_git_env w =
     ((environ w)(''GIT_TERMINAL_PROMPT'' \<mapsto> ''0'', ''GIT_ASKPASS'' := None))
       (''LC_ALL'' \<mapsto> ''C'', ''LANGUAGE'' \<mapsto> ''C'')"

subsection \<open>The two registries\<close>

text \<open>Opening a registry for writing needs its folder.\<close>

definition downloader_folder_exists :: "world \<Rightarrow> bool" where
  "downloader_folder_exists w =
     (downloader_folder w \<or> downloader_lib w \<or> downloader_setting w \<noteq> None)"

definition repo_manager_folder_exists :: "world \<Rightarrow> bool" where
  "repo_manager_folder_exists w =
     (repo_manager_folder w \<or> repos_pylav w \<noteq> None \<or> repo_manager_setting w \<noteq> None)"

definition write_repo_manager_setting :: "json \<Rightarrow> world \<Rightarrow> world" where
  "write_repo_manager_setting d w =
     effect (Write RepoManagerSetting) (w\<lparr>repo_manager_setting := Some (Doc d)\<rparr>)"

definition write_downloader_setting :: "json \<Rightarrow> world \<Rightarrow> world" where
  "write_downloader_setting d w =
     effect (Write DownloaderSetting) (w\<lparr>downloader_setting := Some (Doc d)\<rparr>)"

definition create_or_update_repo_manager_setting :: "unit io" where
  "create_or_update_repo_manager_setting w =
     (case repo_manager_setting w of
        None \<Rightarrow>
          (let w1 = log_info CreatingRepoManagerSetting w in
           if repo_manager_folder_exists w1
           then (Ok (),
                 write_repo_manager_setting
                   (JObj [(''170708480'', JObj [(''GLOBAL'', JObj [(''repos'',
                      JObj [(''pylav'', JStr ''master'')])])])]) w1)
           else (Raise FileNotFoundError, w1))
      | Some f \<Rightarrow>
          (let w1 = log_info UpdatingRepoManagerSetting w in
           case json_load f of
             Inl e \<Rightarrow> (Raise e, w1)
           | Inr exiting_data \<Rightarrow>
               (case thenE (getitem_at exiting_data [''170708480'', ''GLOBAL'', ''repos''])
                       (contains ''pylav'') of
                  Inl e \<Rightarrow> (Raise e, w1)
                | Inr True \<Rightarrow> (Ok (), w1)
                | Inr False \<Rightarrow>
                    (case setitem_at [''170708480'', ''GLOBAL'', ''repos''] ''pylav''
                            (JStr ''master'') exiting_data of
                       Inl e \<Rightarrow> (Raise e, w1)
                     | Inr d \<Rightarrow> (Ok (), write_repo_manager_setting d w1)))))"

definition create_or_update_downloader_setting :: "json \<Rightarrow> unit io" where
  "create_or_update_downloader_setting data w =
     (case downloader_setting w of
        None \<Rightarrow>
          (let w1 = log_info CreatingDownloaderSetting w in
           if downloader_folder_exists w1
           then (Ok (),
                 write_downloader_setting
                   (JObj [(''998240343'', JObj [(''GLOBAL'', JObj [(''installed_cogs'',
                      JObj [(''pylav'', data)])])])]) w1)
           else (Raise FileNotFoundError, w1))
      | Some f \<Rightarrow>
          (let w1 = log_info UpdatingDownloaderSetting w in
           case json_load f of
             Inl e \<Rightarrow> (Raise e, w1)
           | Inr exiting_data \<Rightarrow>
               (case setitem_at [''998240343'', ''GLOBAL'', ''installed_cogs''] ''pylav''
                       data exiting_data of
                  Inl e \<Rightarrow> (Raise e, w1)
                | Inr d \<Rightarrow> (Ok (), write_downloader_setting d w1))))"

subsection \<open>The repository and its plugins\<close>

text \<open>
  The git commands are one step of the world: the message logged depends on whether
  \<^verbatim>\<open>.git\<close> exists in the working copy, the rest is \<open>git_sync\<close>.
\<close>

definition clone_or_update_pylav_repo :: "bool \<Rightarrow> string io" where
  "clone_or_update_pylav_repo is_json w =
     (let w1 = effect Git
                 (log_info
                    (if (case working_copy is_json w of
                           None \<Rightarrow> False
                         | Some es \<Rightarrow> ''.git'' \<in> fst ` set es)
                     then UpdatingRepo else CloningRepo) w)
      in case git_sync w1 of
           Ok (head, es) \<Rightarrow> (Ok head, set_working_copy is_json es w1)
         | Raise e \<Rightarrow> (Raise e, w1)
         | Hangs \<Rightarrow> (Hangs, w1))"

definition is_pylav_cog :: "string \<times> node \<Rightarrow> bool" where
  "is_pylav_cog cog = (is_dir (snd cog) \<and> (prefix ''pl'' (fst cog) \<or> fst cog = ''audio''))"

definition get_pylav_cogs :: "bool \<Rightarrow> world \<Rightarrow> error + (string \<times> path) list" where
  "get_pylav_cogs is_json w =
     (case working_copy is_json w of
        None \<Rightarrow> Inl FileNotFoundError
      | Some es \<Rightarrow>
          Inr (dict_of (map (\<lambda>cog. (fst cog, RepoManagerRepoFolder is_json @ [fst cog]))
                            (filter is_pylav_cog es))))"

text \<open>
  \<^verbatim>\<open>copy_and_overwrite\<close>: the target is an entry of the bot's plugin folder.
  \<^verbatim>\<open>shutil.rmtree\<close> refuses a regular file, \<^verbatim>\<open>shutil.copytree\<close> a source that is not
  a folder; \<^verbatim>\<open>copytree\<close> creates the missing parents of its target.
\<close>

definition copy_and_overwrite :: "bool \<Rightarrow> path \<Rightarrow> path \<Rightarrow> unit io" where
  "copy_and_overwrite is_json from_path to_path w =
     (let es = (case cog_manager_cogs w of None \<Rightarrow> [] | Some es \<Rightarrow> es) in
      case (case map_of es (name to_path) of
              None \<Rightarrow> (Ok (), w)
            | Some (File _) \<Rightarrow> (Raise NotADirectoryError, w)
            | Some (Dir _) \<Rightarrow>
                (Ok (), effect (Rmtree to_path)
                   (w\<lparr>cog_manager_cogs := Some (AList.delete (name to_path) es)\<rparr>))) of
        (Raise e, w1) \<Rightarrow> (Raise e, w1)
      | (Hangs, w1) \<Rightarrow> (Hangs, w1)
      | (Ok _, w1) \<Rightarrow>
          (let w2 = log_info (Copying from_path to_path) w1;
               es2 = (case cog_manager_cogs w2 of None \<Rightarrow> [] | Some es \<Rightarrow> es)
           in case lookup is_json w2 from_path of
                None \<Rightarrow> (Raise FileNotFoundError, w2)
              | Some (File _) \<Rightarrow> (Raise NotADirectoryError, w2)
              | Some (Dir d) \<Rightarrow>
                  (Ok (), effect (Copytree from_path to_path)
                     (w2\<lparr>cog_manager_cogs := Some (es2 @ [(name to_path, Dir d)])\<rparr>))))"

fun for_each :: "('a \<Rightarrow> unit io) \<Rightarrow> 'a list \<Rightarrow> unit io" where
  "for_each body [] w = (Ok (), w)"
| "for_each body (x # xs) w = then_do (body x) (\<lambda>_. for_each body xs) w"

definition install_or_update_pylav_cogs :: "bool \<Rightarrow> (string \<times> path) list \<Rightarrow> unit io" where
  "install_or_update_pylav_cogs is_json cogs =
     for_each (\<lambda>cog. copy_and_overwrite is_json cog (CogManagerCogFolder @ [name cog]))
       (map snd cogs)"

subsection \<open>Requirements and the installer\<close>

text \<open>
  \<^verbatim>\<open>requirements.add(req)\<close> raises \<^verbatim>\<open>TypeError\<close> on a list or a dictionary, which are
  not hashable.  (Python's set also identifies \<^verbatim>\<open>True\<close>, \<^verbatim>\<open>1\<close> and \<^verbatim>\<open>1.0\<close>; the model
  keeps them apart, which no function of the script observes.)
\<close>

fun add_all :: "json list \<Rightarrow> json set \<Rightarrow> error + json set" where
  "add_all [] requirements = Inr requirements"
| "add_all (req # reqs) requirements =
     (if hashable req then add_all reqs (insert req requirements) else Inl TypeError)"

definition cog_requirements :: "bool \<Rightarrow> world \<Rightarrow> path \<Rightarrow> json set \<Rightarrow> error + json set" where
  "cog_requirements is_json w cog requirements =
     (case info_json is_json w cog of
        None \<Rightarrow> Inr requirements
      | Some (Dir _) \<Rightarrow> Inl IsADirectoryError
      | Some (File f) \<Rightarrow>
          thenE (json_load f) (\<lambda>data.
          thenE (contains ''requirements'' data) (\<lambda>present.
            if present
            then thenE (getitem data ''requirements'') (\<lambda>reqs.
                 thenE (iter reqs) (\<lambda>xs. add_all xs requirements))
            else Inr requirements)))"

fun collect :: "bool \<Rightarrow> world \<Rightarrow> path list \<Rightarrow> json set \<Rightarrow> error + json set" where
  "collect is_json w [] requirements = Inr requirements"
| "collect is_json w (cog # cogs) requirements =
     thenE (cog_requirements is_json w cog requirements) (collect is_json w cogs)"

definition get_requirements_for_all_cogs ::
  "bool \<Rightarrow> world \<Rightarrow> (string \<times> path) list \<Rightarrow> error + json set" where
  "get_requirements_for_all_cogs is_json w cogs = collect is_json w (map snd cogs) {}"

text \<open>
  \<^verbatim>\<open>subprocess.Popen\<close> raises \<^verbatim>\<open>TypeError\<close> on an argument that is not a string, and
  the error of the operating system when the program cannot be started.
\<close>

definition Popen_pip :: "json set \<Rightarrow> handle io" where
  "Popen_pip requirements w =
     (if False \<in> is_str ` requirements then (Raise TypeError, w)
      else (case pip_spawn w of
              Some e \<Rightarrow> (Raise e, w)
            | None \<Rightarrow> (Ok Popen_handle, effect (Popen requirements) (w\<lparr>child := Some Running\<rparr>))))"

definition strip_newlines :: "string \<Rightarrow> string" where
  "strip_newlines s =
     rev (dropWhile (\<lambda>c. c = CHR 0x0A) (rev (dropWhile (\<lambda>c. c = CHR 0x0A) s)))"

text \<open>
  The loop over \<^verbatim>\<open>proc.stdout.readline()\<close>: an empty line is the end of the output;
  a child that prints nothing more and keeps its output open blocks the read for ever.
\<close>

fun tail_output :: "string list \<Rightarrow> unit io" where
  "tail_output [] w = (if pip_closes w then (Ok (), w) else (Hangs, w))"
| "tail_output (line # lines) w =
     (if line = [] then (Ok (), w)
      else (let w1 = log_info (PipLine (strip_newlines line)) w in
            if prefix ''Successfully installed'' line then (Ok (), w1)
            else tail_output lines w1))"

definition install_requirements :: "bool \<Rightarrow> (string \<times> path) list \<Rightarrow> handle option io" where
  "install_requirements is_json cogs w =
     (case get_requirements_for_all_cogs is_json w cogs of
        Inl e \<Rightarrow> (Raise e, w)
      | Inr requirements \<Rightarrow>
          if requirements \<noteq> {}
          then then_do (Popen_pip requirements) (\<lambda>proc.
               then_do (tail_output (pip_output w)) (\<lambda>_ w'. (Ok (Some proc), w')))
                 (log_info (InstallingRequirements requirements) w)
          else (Ok None, log_info RequirementsInstalled w))"

definition generate_updated_downloader_setting :: "(string \<times> path) list \<Rightarrow> string \<Rightarrow> json" where
  "generate_updated_downloader_setting cogs commit_hash =
     JObj (dict_of (map (\<lambda>cog.
       (name cog,
        JObj [(''repo_name'', JStr ''pylav''),
              (''module_name'', JStr (name cog)),
              (''commit'', JStr commit_hash),
              (''pinned'', JBool True)])) (map snd cogs)))"

subsection \<open>The recorded commit\<close>

text \<open>
  The commit file is opened in text mode with the default \<^verbatim>\<open>newline=None\<close>: reading
  turns every \<^verbatim>\<open>\r\n\<close> and every lone \<^verbatim>\<open>\r\<close> into \<^verbatim>\<open>\n\<close>; writing on Linux leaves the
  text as it is.
\<close>

fun universal_newlines :: "string \<Rightarrow> string" where
  "universal_newlines [] = []"
| "universal_newlines [c] = [if c = CHR 0x0D then CHR 0x0A else c]"
| "universal_newlines (c # d # cs) =
     (if c = CHR 0x0D \<and> d = CHR 0x0A then CHR 0x0A # universal_newlines cs
      else if c = CHR 0x0D then CHR 0x0A # universal_newlines (d # cs)
      else c # universal_newlines (d # cs))"

text \<open>The commit file, when \<^verbatim>\<open>PyLavHashFile.exists()\<close>.\<close>

definition commit_file :: "world \<Rightarrow> string option" where
  "commit_file w = (case data_pylav w of None \<Rightarrow> None | Some d \<Rightarrow> hashfile d)"

definition get_existing_commit :: "world \<Rightarrow> string" where
  "get_existing_commit w =
     (case commit_file w of None \<Rightarrow> [] | Some s \<Rightarrow> universal_newlines s)"

text \<open>Opening the file for writing needs its folder \<^verbatim>\<open>/data/pylav\<close>.\<close>

definition update_existing_commit :: "string \<Rightarrow> unit io" where
  "update_existing_commit commit_hash w =
     (case data_pylav w of
        None \<Rightarrow> (Raise FileNotFoundError, w)
      | Some d \<Rightarrow>
          (Ok (), effect (Write PyLavHashFile)
             (w\<lparr>data_pylav := Some (d\<lparr>hashfile := Some commit_hash\<rparr>)\<rparr>)))"

subsection \<open>The main block\<close>

datatype outcome = Exit int | Uncaught error | Hang

text \<open>\<^verbatim>\<open>folder.mkdir(parents=True)\<close> for each of the three folders that does not exist.\<close>

definition make_folders :: "bool \<Rightarrow> world \<Rightarrow> world" where
  "make_folders is_json w =
     (let w1 = (if downloader_lib w then w
                else effect (Mkdir DownloaderLibFolder) (w\<lparr>downloader_lib := True\<rparr>));
          w2 = (if working_copy is_json w1 \<noteq> None then w1
                else effect (Mkdir (RepoManagerRepoFolder is_json))
                       (set_working_copy is_json [] w1))
      in if cog_manager_cogs w2 \<noteq> None then w2
         else effect (Mkdir CogManagerCogFolder) (w2\<lparr>cog_manager_cogs := Some []\<rparr>))"

definition wait :: "unit io" where
  "wait w = (if pip_exits w then (Ok (), effect Wait (w\<lparr>child := Some Exited\<rparr>)) else (Hangs, w))"

text \<open>\<^verbatim>\<open>kill\<close> and \<^verbatim>\<open>terminate\<close> signal a child that is still running and never raise.\<close>

definition kill :: "world \<Rightarrow> world" where
  "kill w = effect Kill (w\<lparr>child := (if child w = Some Running then Some Killed else child w)\<rparr>)"

definition terminate :: "world \<Rightarrow> world" where
  "terminate w =
     effect Terminate (w\<lparr>child := (if child w = Some Running then Some Killed else child w)\<rparr>)"

text \<open>The body of the \<^verbatim>\<open>try\<close> statement.\<close>

definition guarded :: "bool \<Rightarrow> string \<Rightarrow> (string \<times> path) list \<Rightarrow> handle option \<Rightarrow> unit io" where
  "guarded is_json current_commit cogs_mapping process w =
     (let downloader_data = generate_updated_downloader_setting cogs_mapping current_commit in
      then_do (if is_json
               then then_do (create_or_update_downloader_setting downloader_data)
                      (\<lambda>_. create_or_update_repo_manager_setting)
               else done_io) (\<lambda>_.
      then_do (update_existing_commit current_commit) (\<lambda>_.
      then_do (if process \<noteq> None
               then (\<lambda>w'. wait (log_info WaitingForRequirements w'))
               else done_io) (\<lambda>_ w'.
      (Ok (), log_info Finished w'))))
        (log_info (UpdatedDownloaderData downloader_data)
           (log_info (CurrentCommit current_commit) w)))"

text \<open>The \<^verbatim>\<open>finally\<close> clause.\<close>

definition cleanup :: "handle option \<Rightarrow> world \<Rightarrow> outcome \<times> world" where
  "cleanup process w = (Exit 0, if process \<noteq> None then terminate (kill w) else w)"

definition try_finally ::
  "bool \<Rightarrow> string \<Rightarrow> (string \<times> path) list \<Rightarrow> handle option \<Rightarrow> world \<Rightarrow> outcome \<times> world" where
  "try_finally is_json current_commit cogs_mapping process w =
     (case guarded is_json current_commit cogs_mapping process w of
        (Ok _, w1) \<Rightarrow> cleanup process w1
      | (Raise e, w1) \<Rightarrow> cleanup process (log_info (Failed e) w1)
      | (Hangs, w1) \<Rightarrow> (Hang, w1))"

text \<open>The \<^verbatim>\<open>else\<close> branch of the comparison, up to the exit.\<close>

definition install_path ::
  "bool \<Rightarrow> string \<Rightarrow> (string \<times> path) list \<Rightarrow> world \<Rightarrow> outcome \<times> world" where
  "install_path is_json current_commit cogs_mapping w =
     (case (if is_json then install_or_update_pylav_cogs is_json cogs_mapping w else (Ok (), w)) of
        (Raise e, w1) \<Rightarrow> (Uncaught e, w1)
      | (Hangs, w1) \<Rightarrow> (Hang, w1)
      | (Ok _, w1) \<Rightarrow>
          (case install_requirements is_json cogs_mapping w1 of
             (Raise e, w2) \<Rightarrow> (Uncaught e, w2)
           | (Hangs, w2) \<Rightarrow> (Hang, w2)
           | (Ok process, w2) \<Rightarrow> try_finally is_json current_commit cogs_mapping process w2))"

text \<open>
  The steps of the \<^verbatim>\<open>else\<close> branch that come before the \<^verbatim>\<open>try\<close> statement: the copy of
  the plugins (JSON storage only) and \<^verbatim>\<open>install_requirements\<close>, which returns the
  process handle.
\<close>

definition install_steps :: "bool \<Rightarrow> (string \<times> path) list \<Rightarrow> handle option io" where
  "install_steps is_json cogs_mapping =
     then_do (if is_json then install_or_update_pylav_cogs is_json cogs_mapping else done_io)
       (\<lambda>_. install_requirements is_json cogs_mapping)"

definition passes_gate :: "world \<Rightarrow> bool" where
  "passes_gate w =
     (case environ w ''PCX_DISCORDBOT_TAG'' of
        None \<Rightarrow> False
      | Some PCX_DISCORDBOT_TAG \<Rightarrow> sublist ''pylav'' PCX_DISCORDBOT_TAG)"

definition main_block :: "bool \<Rightarrow> world \<Rightarrow> outcome \<times> world" where
  "main_block is_json w =
     (if \<not> passes_gate w then (Exit 0, log_info Skipping w)
      else (case clone_or_update_pylav_repo is_json (make_folders is_json w) of
              (Raise e, w2) \<Rightarrow> (Uncaught e, w2)
            | (Hangs, w2) \<Rightarrow> (Hang, w2)
            | (Ok current_commit, w2) \<Rightarrow>
                (let existing_commit = get_existing_commit w2 in
                 case get_pylav_cogs is_json w2 of
                   Inl e \<Rightarrow> (Uncaught e, w2)
                 | Inr cogs_mapping \<Rightarrow>
                     if current_commit = existing_commit then (Exit 0, log_info UpToDate w2)
                     else install_path is_json current_commit cogs_mapping w2)))"

text \<open>
  One run of the script: a new process has no child and has done nothing yet; the
  module is loaded, then the main block runs.  An exception that nothing catches ends
  the process with a traceback and a non-zero exit status.
\<close>

definition start :: "world \<Rightarrow> world" where
  "start w = w\<lparr>child := None, trace := []\<rparr>"

definition run :: "world \<Rightarrow> outcome \<times> world" where
  "run w =
     (case IS_JSON (start w) of
        Inl e \<Rightarrow> (Uncaught e, start w)
      | Inr is_json \<Rightarrow> main_block is_json (start w))"

text \<open>The world in which the two commits are compared: after the folders and the sync.\<close>

definition at_comparison :: "bool \<Rightarrow> world \<Rightarrow> world" where
  "at_comparison is_json w =
     snd (clone_or_update_pylav_repo is_json (make_folders is_json (start w)))"

section \<open>What the specification speaks of\<close>

text \<open>
  The requirement list a manifest declares, in the words of the specification: the
  optional list field \<^verbatim>\<open>requirements\<close> of the manifest, nothing when the manifest or
  the field is missing.
\<close>

definition declared_requirements :: "node option \<Rightarrow> json set" where
  "declared_requirements manifest =
     (case manifest of
        Some (File (Doc (JObj kvs))) \<Rightarrow>
          (case map_of kvs ''requirements'' of Some (JArr xs) \<Rightarrow> set xs | _ \<Rightarrow> {})
      | _ \<Rightarrow> {})"

text \<open>
  A manifest as the specification describes it: a JSON object whose field
  \<^verbatim>\<open>requirements\<close>, when present, is a list of strings.
\<close>

definition manifest_ok :: "node option \<Rightarrow> bool" where
  "manifest_ok manifest =
     (case manifest of
        None \<Rightarrow> True
      | Some (File (Doc (JObj kvs))) \<Rightarrow>
          (case map_of kvs ''requirements'' of
             None \<Rightarrow> True
           | Some (JArr xs) \<Rightarrow> list_all is_str xs
           | Some _ \<Rightarrow> False)
      | Some _ \<Rightarrow> False)"

text \<open>The effects that change a registry, a plugin folder or the set of processes.\<close>

fun mutating :: "event \<Rightarrow> bool" where
  "mutating (Write p) = True"
| "mutating (Rmtree p) = True"
| "mutating (Copytree p q) = True"
| "mutating (Popen reqs) = True"
| "mutating _ = False"

section \<open>Example worlds\<close>

definition empty_world :: world where
  "empty_world =
     \<lparr>environ = Map.empty, config_json = None, repo_manager_setting = None,
      downloader_setting = None, downloader_folder = False, downloader_lib = False,
      repo_manager_folder = False, repos_pylav = None,
      data_pylav = None, cog_manager_cogs = None,
      git_sync = Raise CalledProcessError, pip_spawn = None, pip_output = [],
      pip_closes = True, pip_exits = True, child = None, trace = []\<rparr>"

definition pylav_image :: world where
  "pylav_image =
     empty_world\<lparr>environ :=
       [''STORAGE_TYPE'' \<mapsto> ''json'', ''PCX_DISCORDBOT_TAG'' \<mapsto> ''latest-pylav'']\<rparr>"

definition manifest :: "string list \<Rightarrow> node" where
  "manifest reqs = File (Doc (JObj [(''requirements'', JArr (map JStr reqs))]))"

definition example_tree :: "(string \<times> node) list" where
  "example_tree =
     [(''.git'', Dir []),
      (''audio'', Dir [(''info.json'', manifest [''a'', ''b''])]),
      (''pylav-core'', Dir []),
      (''plutils'', Dir [(''info.json'', manifest [''b'', ''c''])]),
      (''plnomanifest'', Dir [(''cog.py'', File Malformed)]),
      (''plnofield'', Dir [(''info.json'', File (Doc (JObj [(''name'', JStr ''cog'')])))]),
      (''docs'', Dir [(''plnested'', Dir [])]),
      (''notanaudioplugin_other'', Dir []),
      (''plfile'', File Malformed)]"

definition example_world :: world where
  "example_world = pylav_image\<lparr>repos_pylav := Some example_tree\<rparr>"

definition example_cogs :: "(string \<times> path) list" where
  "example_cogs =
     [(''audio'', [''data'', ''cogs'', ''RepoManager'', ''repos'', ''pylav'', ''audio'']),
      (''plutils'', [''data'', ''cogs'', ''RepoManager'', ''repos'', ''pylav'', ''plutils'']),
      (''plnomanifest'',
         [''data'', ''cogs'', ''RepoManager'', ''repos'', ''pylav'', ''plnomanifest'']),
      (''plnofield'', [''data'', ''cogs'', ''RepoManager'', ''repos'', ''pylav'', ''plnofield''])]"

text \<open>A world whose commit file already holds the commit that the repository is at.\<close>

definition recorded_world :: world where
  "recorded_world =
     pylav_image\<lparr>data_pylav := Some \<lparr>hashfile = Some ''abc'', cogs_folder = None\<rparr>,
                 git_sync := Ok (''abc'', example_tree)\<rparr>"

text \<open>A world with plugins that declare no requirement.\<close>

definition plain_world :: world where
  "plain_world =
     pylav_image\<lparr>repos_pylav := Some [(''plnomanifest'', Dir []),
        (''plnofield'', Dir [(''info.json'', File (Doc (JObj [(''name'', JStr ''cog'')])))])]\<rparr>"

definition plain_cogs :: "(string \<times> path) list" where
  "plain_cogs =
     [(''plnomanifest'',
         [''data'', ''cogs'', ''RepoManager'', ''repos'', ''pylav'', ''plnomanifest'']),
      (''plnofield'', [''data'', ''cogs'', ''RepoManager'', ''repos'', ''pylav'', ''plnofield''])]"

text \<open>A first run: no commit file yet.\<close>

definition first_run_world :: world where
  "first_run_world = pylav_image\<lparr>git_sync := Ok (''abc'', example_tree)\<rparr>"

text \<open>A plugin whose manifest is not JSON.\<close>

definition broken_manifest_world :: world where
  "broken_manifest_world =
     pylav_image\<lparr>git_sync :=
       Ok (''abc'', [(''plbroken'', Dir [(''info.json'', File Malformed)])])\<rparr>"

text \<open>The two registries of a bot that has other repositories and plugins installed.\<close>

definition repo_manager_doc :: json where
  "repo_manager_doc =
     JObj [(''170708480'', JObj [(''GLOBAL'', JObj [(''repos'',
       JObj [(''other'', JStr ''main''), (''pylav'', JStr ''master'')])])])]"

definition old_entry :: json where
  "old_entry =
     JObj [(''repo_name'', JStr ''pylav''), (''module_name'', JStr ''audio''),
           (''commit'', JStr ''old''), (''pinned'', JBool True)]"

definition downloader_doc :: json where
  "downloader_doc =
     JObj [(''998240343'', JObj [(''GLOBAL'', JObj
        [(''schema_version'', JInt 2),
         (''installed_cogs'', JObj
            [(''other'', JObj [(''cog'', old_entry)]),
             (''pylav'', JObj [(''audio'', old_entry)])])])]),
           (''1234'', JArr [JNull])]"

definition registry_world :: world where
  "registry_world =
     pylav_image\<lparr>repo_manager_setting := Some (Doc repo_manager_doc),
                 downloader_setting := Some (Doc downloader_doc),
                 repos_pylav := Some example_tree,
                 child := Some Running\<rparr>"



text \<open>A first run that meets a Downloader registry that is not JSON.\<close>

definition broken_downloader_world :: world where
  "broken_downloader_world = first_run_world\<lparr>downloader_setting := Some Malformed\<rparr>"

text \<open>A run that has not reported that PyLav is up to date.\<close>

definition quiet :: "world \<Rightarrow> bool" where
  "quiet w = (Log UpToDate \<notin> set (trace w))"

text \<open>A world without the folder \<^verbatim>\<open>/data/pylav\<close> of the commit file.\<close>

definition no_pylav_folder :: "world \<Rightarrow> bool" where
  "no_pylav_folder w = (data_pylav w = None)"

section \<open>Properties\<close>

subsection \<open>Effects and the fields of the world\<close>

lemma effect_fields [simp]:
  "environ (effect ev w) = environ w"
  "config_json (effect ev w) = config_json w"
  "repo_manager_setting (effect ev w) = repo_manager_setting w"
  "downloader_setting (effect ev w) = downloader_setting w"
  "downloader_lib (effect ev w) = downloader_lib w"
  "repos_pylav (effect ev w) = repos_pylav w"
  "data_pylav (effect ev w) = data_pylav w"
  "cog_manager_cogs (effect ev w) = cog_manager_cogs w"
  "git_sync (effect ev w) = git_sync w"
  "pip_spawn (effect ev w) = pip_spawn w"
  "pip_output (effect ev w) = pip_output w"
  "pip_closes (effect ev w) = pip_closes w"
  "pip_exits (effect ev w) = pip_exits w"
  "child (effect ev w) = child w"
  "trace (effect ev w) = trace w @ [ev]"
  by (simp_all add: effect_def)

lemma log_info_fields [simp]:
  "environ (log_info m w) = environ w"
  "config_json (log_info m w) = config_json w"
  "repo_manager_setting (log_info m w) = repo_manager_setting w"
  "downloader_setting (log_info m w) = downloader_setting w"
  "downloader_lib (log_info m w) = downloader_lib w"
  "repos_pylav (log_info m w) = repos_pylav w"
  "data_pylav (log_info m w) = data_pylav w"
  "cog_manager_cogs (log_info m w) = cog_manager_cogs w"
  "git_sync (log_info m w) = git_sync w"
  "pip_spawn (log_info m w) = pip_spawn w"
  "pip_output (log_info m w) = pip_output w"
  "pip_closes (log_info m w) = pip_closes w"
  "pip_exits (log_info m w) = pip_exits w"
  "child (log_info m w) = child w"
  "trace (log_info m w) = trace w @ [Log m]"
  by (simp_all add: log_info_def)

lemma set_working_copy_fields [simp]:
  "environ (set_working_copy b es w) = environ w"
  "config_json (set_working_copy b es w) = config_json w"
  "repo_manager_setting (set_working_copy b es w) = repo_manager_setting w"
  "downloader_setting (set_working_copy b es w) = downloader_setting w"
  "downloader_lib (set_working_copy b es w) = downloader_lib w"
  "cog_manager_cogs (set_working_copy b es w) = cog_manager_cogs w"
  "git_sync (set_working_copy b es w) = git_sync w"
  "child (set_working_copy b es w) = child w"
  "trace (set_working_copy b es w) = trace w"
  by (simp_all add: set_working_copy_def)

lemma working_copy_set [simp]: "working_copy b (set_working_copy b es w) = Some es"
  by (simp add: working_copy_def set_working_copy_def split: option.splits)

lemma get_existing_commit_set_working_copy [simp]:
  "get_existing_commit (set_working_copy b es w) = get_existing_commit w"
  by (simp add: get_existing_commit_def set_working_copy_def commit_file_def split: option.splits)

lemma get_existing_commit_effect [simp]:
  "get_existing_commit (effect ev w) = get_existing_commit w"
  "get_existing_commit (log_info m w) = get_existing_commit w"
  by (simp_all add: get_existing_commit_def commit_file_def)

lemma working_copy_effect [simp]:
  "working_copy b (effect ev w) = working_copy b w"
  "working_copy b (log_info m w) = working_copy b w"
  by (simp_all add: working_copy_def)

lemma start_fields [simp]:
  "environ (start w) = environ w"
  "config_json (start w) = config_json w"
  "repo_manager_setting (start w) = repo_manager_setting w"
  "downloader_setting (start w) = downloader_setting w"
  "cog_manager_cogs (start w) = cog_manager_cogs w"
  "data_pylav (start w) = data_pylav w"
  "git_sync (start w) = git_sync w"
  "child (start w) = None"
  "trace (start w) = []"
  by (simp_all add: start_def)

lemma start_reads [simp]:
  "IS_JSON (start w) = IS_JSON w"
  "passes_gate (start w) = passes_gate w"
  "get_existing_commit (start w) = get_existing_commit w"
  by (simp_all add: IS_JSON_def STORAGE_TYPE_def passes_gate_def get_existing_commit_def start_def
        commit_file_def cong: option.case_cong if_cong)

lemma make_folders_fields [simp]:
  "environ (make_folders b w) = environ w"
  "config_json (make_folders b w) = config_json w"
  "repo_manager_setting (make_folders b w) = repo_manager_setting w"
  "downloader_setting (make_folders b w) = downloader_setting w"
  "git_sync (make_folders b w) = git_sync w"
  "child (make_folders b w) = child w"
  "get_existing_commit (make_folders b w) = get_existing_commit w"
  "cog_manager_cogs (make_folders b w) =
     (case cog_manager_cogs w of None \<Rightarrow> Some [] | Some es \<Rightarrow> Some es)"
  by (simp_all add: make_folders_def Let_def get_existing_commit_def working_copy_def
        set_working_copy_def effect_def commit_file_def split: option.splits)

lemma make_folders_trace:
  "\<exists>evs. trace (make_folders b w) = trace w @ evs \<and> (\<forall>ev \<in> set evs. \<not> mutating ev)"
  by (simp add: make_folders_def Let_def)

subsection \<open>Plugin discovery\<close>

lemma map_of_dict_of_aux:
  "map_of (fold (\<lambda>kv acc. AList.update (fst kv) (snd kv) acc) kvs acc) = map_of acc ++ map_of (rev kvs)"
  by (induction kvs arbitrary: acc) (auto simp: update_conv' fun_eq_iff map_add_def split: option.splits)

lemma map_of_dict_of: "map_of (dict_of kvs) = map_of (rev kvs)"
  by (simp add: dict_of_def map_of_dict_of_aux)

lemma distinct_dict_of_aux:
  "distinct (map fst acc) \<Longrightarrow>
   distinct (map fst (fold (\<lambda>kv acc. AList.update (fst kv) (snd kv) acc) kvs acc))"
  by (induction kvs arbitrary: acc) (auto simp: distinct_update)

lemma distinct_dict_of: "distinct (map fst (dict_of kvs))"
  by (simp add: dict_of_def distinct_dict_of_aux)

lemma map_of_keyed:
  "map_of (map (\<lambda>x. (g x, f (g x))) xs) k = (if k \<in> g ` set xs then Some (f k) else None)"
  by (induction xs) auto

lemma dict_of_keyed:
  "(k, v) \<in> set (dict_of (map (\<lambda>x. (g x, f (g x))) xs)) \<longleftrightarrow> k \<in> g ` set xs \<and> v = f k"
proof -
  have "(k, v) \<in> set (dict_of (map (\<lambda>x. (g x, f (g x))) xs)) \<longleftrightarrow>
        map_of (dict_of (map (\<lambda>x. (g x, f (g x))) xs)) k = Some v"
    by (simp add: distinct_dict_of)
  also have "\<dots> \<longleftrightarrow> map_of (map (\<lambda>x. (g x, f (g x))) (rev xs)) k = Some v"
    by (simp add: map_of_dict_of rev_map)
  also have "\<dots> \<longleftrightarrow> k \<in> g ` set xs \<and> v = f k"
    by (auto simp: map_of_keyed)
  finally show ?thesis .
qed

text \<open>
  C4, as amended.  Plugin discovery returns a mapping with one entry for each
  top-level entry of the working copy that is a folder and whose name starts with
  \<^verbatim>\<open>pl\<close> or is \<^verbatim>\<open>audio\<close>, from the name to the path of the folder, and nothing
  else: the test is \<^verbatim>\<open>startswith("pl")\<close>, so that a folder named \<^verbatim>\<open>pylav-core\<close> is
  left out with \<^verbatim>\<open>docs\<close> and \<^verbatim>\<open>notanaudioplugin_other\<close>; entries below the top level
  are never looked at.
\<close>

theorem discovery_exact:
  assumes "working_copy is_json w = Some es"
  shows "\<exists>cogs. get_pylav_cogs is_json w = Inr cogs \<and> distinct (map fst cogs) \<and>
           (\<forall>n p. (n, p) \<in> set cogs \<longleftrightarrow>
              p = RepoManagerRepoFolder is_json @ [n] \<and>
              (\<exists>nd. (n, nd) \<in> set es \<and> is_dir nd \<and> (prefix ''pl'' n \<or> n = ''audio'')))"
proof -
  let ?cogs = "dict_of (map (\<lambda>cog. (fst cog, RepoManagerRepoFolder is_json @ [fst cog]))
                            (filter is_pylav_cog es))"
  have eq: "get_pylav_cogs is_json w = Inr ?cogs"
    using assms by (simp add: get_pylav_cogs_def)
  have mem: "(n, p) \<in> set ?cogs \<longleftrightarrow>
               p = RepoManagerRepoFolder is_json @ [n] \<and>
               (\<exists>nd. (n, nd) \<in> set es \<and> is_dir nd \<and> (prefix ''pl'' n \<or> n = ''audio''))" for n p
    using dict_of_keyed [where g = fst and f = "\<lambda>n. RepoManagerRepoFolder is_json @ [n]"
                           and xs = "filter is_pylav_cog es" and k = n and v = p]
    by (force simp: is_pylav_cog_def)
  show ?thesis
    using eq mem distinct_dict_of by blast
qed

text \<open>
  C4 as stated names \<^verbatim>\<open>pylav-core\<close> as a discovered folder.  The name starts with
  \<^verbatim>\<open>py\<close>, not with \<^verbatim>\<open>pl\<close>: in the example tree the folder exists and discovery
  returns a mapping without it.
\<close>

theorem pylav_core_not_discovered:
  "map_of example_tree ''pylav-core'' = Some (Dir []) \<and>
   get_pylav_cogs True example_world = Inr example_cogs \<and>
   map_of example_cogs ''pylav-core'' = None"
  by code_simp

text \<open>
  On the example tree: \<^verbatim>\<open>audio\<close> and \<^verbatim>\<open>plutils\<close> are discovered; \<^verbatim>\<open>docs\<close>,
  \<^verbatim>\<open>notanaudioplugin_other\<close> and \<^verbatim>\<open>pylav-core\<close> are not, nor the regular file
  \<^verbatim>\<open>plfile\<close>, nor the folder \<^verbatim>\<open>plnested\<close> inside \<^verbatim>\<open>docs\<close>.
\<close>

theorem discovery_exact_witness:
  "\<exists>cogs. get_pylav_cogs True example_world = Inr cogs \<and>
     (''audio'', RepoManagerRepoFolder True @ [''audio'']) \<in> set cogs \<and>
     (''plutils'', RepoManagerRepoFolder True @ [''plutils'']) \<in> set cogs \<and>
     ''docs'' \<notin> fst ` set cogs \<and>
     ''notanaudioplugin_other'' \<notin> fst ` set cogs \<and>
     ''pylav-core'' \<notin> fst ` set cogs \<and>
     ''plfile'' \<notin> fst ` set cogs \<and>
     ''plnested'' \<notin> fst ` set cogs"
proof -
  have wc: "working_copy True example_world = Some example_tree"
    by (simp add: working_copy_def example_world_def)
  from discovery_exact [OF wc] obtain cogs where
    cogs: "get_pylav_cogs True example_world = Inr cogs"
    and mem: "\<And>n p. (n, p) \<in> set cogs \<longleftrightarrow>
                p = RepoManagerRepoFolder True @ [n] \<and>
                (\<exists>nd. (n, nd) \<in> set example_tree \<and> is_dir nd \<and>
                      (prefix ''pl'' n \<or> n = ''audio''))"
    by blast
  have "(''audio'', RepoManagerRepoFolder True @ [''audio'']) \<in> set cogs"
    by (simp add: mem example_tree_def)
  moreover have "(''plutils'', RepoManagerRepoFolder True @ [''plutils'']) \<in> set cogs"
    by (simp add: mem example_tree_def)
  moreover have out: "n \<notin> fst ` set cogs" if "\<not> prefix ''pl'' n" "n \<noteq> ''audio''" for n
    using that mem by force
  have "''docs'' \<notin> fst ` set cogs" "''notanaudioplugin_other'' \<notin> fst ` set cogs"
    "''pylav-core'' \<notin> fst ` set cogs"
    by (simp_all add: out)
  moreover have "''plfile'' \<notin> fst ` set cogs"
    using mem [of "''plfile''"] by (auto simp: example_tree_def manifest_def)
  moreover have "''plnested'' \<notin> fst ` set cogs"
    using mem [of "''plnested''"] by (auto simp: example_tree_def manifest_def)
  ultimately show ?thesis
    using cogs by blast
qed

subsection \<open>Requirements\<close>

lemma is_str_hashable: "is_str x \<Longrightarrow> hashable x"
  by (cases x) auto

lemma add_all_strings: "list_all is_str xs \<Longrightarrow> add_all xs acc = Inr (acc \<union> set xs)"
  by (induction xs arbitrary: acc) (auto simp: is_str_hashable)

lemma cog_requirements_ok:
  assumes "manifest_ok (info_json is_json w cog)"
  shows "cog_requirements is_json w cog acc =
           Inr (acc \<union> declared_requirements (info_json is_json w cog))"
proof (cases "info_json is_json w cog")
  case None
  then show ?thesis
    by (simp add: cog_requirements_def declared_requirements_def)
next
  case (Some nd)
  with assms obtain kvs where nd: "nd = File (Doc (JObj kvs))"
    by (auto simp: manifest_ok_def split: node.splits jfile.splits json.splits)
  show ?thesis
  proof (cases "map_of kvs ''requirements''")
    case None
    then have "''requirements'' \<notin> fst ` set kvs"
      by (simp add: map_of_eq_None_iff)
    with None Some nd show ?thesis
      by (simp add: cog_requirements_def declared_requirements_def thenE_def)
  next
    case (Some v)
    then have inn: "''requirements'' \<in> fst ` set kvs"
      by (metis map_of_eq_None_iff option.distinct(1))
    from assms \<open>info_json is_json w cog = Some nd\<close> nd Some
    obtain xs where v: "v = JArr xs" and strs: "list_all is_str xs"
      by (auto simp: manifest_ok_def split: json.splits)
    from inn Some v strs \<open>info_json is_json w cog = Some nd\<close> nd show ?thesis
      by (simp add: cog_requirements_def declared_requirements_def thenE_def add_all_strings)
  qed
qed

lemma collect_ok:
  "\<forall>cog \<in> set cogs. manifest_ok (info_json is_json w cog) \<Longrightarrow>
   collect is_json w cogs acc =
     Inr (acc \<union> (\<Union>cog \<in> set cogs. declared_requirements (info_json is_json w cog)))"
proof (induction cogs arbitrary: acc)
  case Nil
  then show ?case by simp
next
  case (Cons cog cogs)
  then show ?case
    by (simp add: cog_requirements_ok thenE_def Un_assoc)
qed

text \<open>
  C5.  When every manifest that exists is a JSON object whose \<^verbatim>\<open>requirements\<close>, if
  present, is a list of strings, the collected requirement set is the union, over the
  plugins, of the lists their manifests declare; a plugin without a manifest, or with
  a manifest without the field, contributes nothing.
\<close>

theorem requirements_are_union:
  assumes "\<forall>cog \<in> snd ` set cogs. manifest_ok (info_json is_json w cog)"
  shows "get_requirements_for_all_cogs is_json w cogs =
           Inr (\<Union>cog \<in> snd ` set cogs. declared_requirements (info_json is_json w cog))"
  using collect_ok [of "map snd cogs" is_json w "{}"] assms
  by (simp add: get_requirements_for_all_cogs_def)

text \<open>
  The manifests \<^verbatim>\<open>{"requirements": ["a","b"]}\<close> and \<^verbatim>\<open>{"requirements": ["b","c"]}\<close>,
  beside a plugin without a manifest and one whose manifest lacks the field, give
  exactly the set of \<^verbatim>\<open>a\<close>, \<^verbatim>\<open>b\<close> and \<^verbatim>\<open>c\<close>.
\<close>

theorem requirements_are_union_witness:
  "get_requirements_for_all_cogs True example_world example_cogs =
     Inr {JStr ''a'', JStr ''b'', JStr ''c''}"
proof -
  have info: "info_json True example_world [''data'', ''cogs'', ''RepoManager'', ''repos'', ''pylav'', ''audio''] = Some (manifest [''a'', ''b''])"
    "info_json True example_world [''data'', ''cogs'', ''RepoManager'', ''repos'', ''pylav'', ''plutils''] = Some (manifest [''b'', ''c''])"
    "info_json True example_world [''data'', ''cogs'', ''RepoManager'', ''repos'', ''pylav'', ''plnomanifest''] = None"
    "info_json True example_world [''data'', ''cogs'', ''RepoManager'', ''repos'', ''pylav'', ''plnofield''] = Some (File (Doc (JObj [(''name'', JStr ''cog'')])))"
    by (simp_all add: info_json_def lookup_def working_copy_def RepoManagerRepoFolder_def
          example_world_def pylav_image_def empty_world_def example_tree_def)
  have ok: "\<forall>cog \<in> snd ` set example_cogs. manifest_ok (info_json True example_world cog)"
    by (simp add: example_cogs_def info manifest_ok_def manifest_def)
  show ?thesis
    using requirements_are_union [OF ok]
    by (auto simp: example_cogs_def info declared_requirements_def manifest_def)
qed

text \<open>
  C6.  When the collected requirement set is empty, \<^verbatim>\<open>install_requirements\<close> returns
  no process handle; it only logs a message: no installer is started and the child
  process of the world is as before.
\<close>

theorem no_requirements_no_installer:
  assumes "get_requirements_for_all_cogs is_json w cogs = Inr {}"
  shows "install_requirements is_json cogs w = (Ok None, log_info RequirementsInstalled w) \<and>
         child (log_info RequirementsInstalled w) = child w \<and>
         trace (log_info RequirementsInstalled w) = trace w @ [Log RequirementsInstalled]"
  using assms by (simp add: install_requirements_def log_info_def)

text \<open>Two plugins that declare nothing: no installer.\<close>

theorem no_requirements_no_installer_witness:
  "install_requirements True plain_cogs plain_world =
     (Ok None, log_info RequirementsInstalled plain_world) \<and>
   child (log_info RequirementsInstalled plain_world) = child plain_world \<and>
   trace (log_info RequirementsInstalled plain_world) =
     trace plain_world @ [Log RequirementsInstalled]"
proof -
  have "get_requirements_for_all_cogs True plain_world plain_cogs = Inr {}"
    by code_simp
  then show ?thesis
    by (rule no_requirements_no_installer)
qed

subsection \<open>The run up to the comparison\<close>

lemma clone_or_update_ok:
  assumes "git_sync w = Ok (head, es)"
  shows "clone_or_update_pylav_repo b w =
           (Ok head, set_working_copy b es (effect Git (log_info
              (if (case working_copy b w of None \<Rightarrow> False | Some es \<Rightarrow> ''.git'' \<in> fst ` set es)
               then UpdatingRepo else CloningRepo) w)))"
  using assms by (simp add: clone_or_update_pylav_repo_def Let_def)

lemma get_pylav_cogs_ok:
  "working_copy b w = Some es \<Longrightarrow> \<exists>cogs. get_pylav_cogs b w = Inr cogs"
  by (simp add: get_pylav_cogs_def)

lemma main_block_compare:
  assumes "passes_gate w" and "git_sync w = Ok (head, es)"
  shows "\<exists>m evs cogs w2.
           w2 = set_working_copy b es (effect Git (log_info m (make_folders b w))) \<and>
           get_pylav_cogs b w2 = Inr cogs \<and>
           main_block b w =
             (if head = get_existing_commit w then (Exit 0, log_info UpToDate w2)
              else install_path b head cogs w2)"
proof -
  let ?m = "if (case working_copy b (make_folders b w) of None \<Rightarrow> False
                | Some es \<Rightarrow> ''.git'' \<in> fst ` set es) then UpdatingRepo else CloningRepo"
  let ?w2 = "set_working_copy b es (effect Git (log_info ?m (make_folders b w)))"
  obtain cogs where cogs: "get_pylav_cogs b ?w2 = Inr cogs"
    using get_pylav_cogs_ok [of b ?w2 es] by auto
  have "clone_or_update_pylav_repo b (make_folders b w) = (Ok head, ?w2)"
    using assms(2) by (simp add: clone_or_update_ok)
  then have "main_block b w =
             (if head = get_existing_commit w then (Exit 0, log_info UpToDate ?w2)
              else install_path b head cogs ?w2)"
    using assms(1) cogs by (simp add: main_block_def)
  with cogs show ?thesis by blast
qed

lemma run_up_to_date:
  assumes "IS_JSON w = Inr is_json" and "passes_gate w"
    and "git_sync w = Ok (current_commit, es)"
    and "get_existing_commit w = current_commit"
  shows "\<exists>m. run w = (Exit 0, log_info UpToDate
           (set_working_copy is_json es
              (effect Git (log_info m (make_folders is_json (start w))))))"
  using main_block_compare [of "start w" current_commit es is_json] assms
  by (auto simp: run_def)

text \<open>
  C1.  When the commit that the repository sync returns equals the commit read from
  the commit file, the run exits with code 0 on the up-to-date path: it logs that
  PyLav is up to date and performs no write, no removal, no copy and no start of an
  installer.  Both registries are as before, the plugin folder of the bot holds what
  it held (it is created empty when missing), and there is no child process.
\<close>

theorem equal_commits_up_to_date:
  assumes "IS_JSON w = Inr is_json" and "passes_gate w"
    and "git_sync w = Ok (current_commit, es)"
    and "get_existing_commit w = current_commit"
  shows "fst (run w) = Exit 0 \<and>
         Log UpToDate \<in> set (trace (snd (run w))) \<and>
         (\<forall>ev \<in> set (trace (snd (run w))). \<not> mutating ev) \<and>
         repo_manager_setting (snd (run w)) = repo_manager_setting w \<and>
         downloader_setting (snd (run w)) = downloader_setting w \<and>
         cog_manager_cogs (snd (run w)) =
           (case cog_manager_cogs w of None \<Rightarrow> Some [] | Some cogs \<Rightarrow> Some cogs) \<and>
         child (snd (run w)) = None"
proof -
  from run_up_to_date [OF assms]
  obtain m where run: "run w = (Exit 0, log_info UpToDate
      (set_working_copy is_json es (effect Git (log_info m (make_folders is_json (start w))))))"
    by blast
  obtain evs where evs: "trace (make_folders is_json (start w)) = evs"
    and benign: "\<forall>ev \<in> set evs. \<not> mutating ev"
    using make_folders_trace [of is_json "start w"] by auto
  show ?thesis
    using benign by (simp add: run evs)
qed

text \<open>A world whose commit file holds the commit of the repository.\<close>

theorem equal_commits_up_to_date_witness:
  "fst (run recorded_world) = Exit 0 \<and>
   Log UpToDate \<in> set (trace (snd (run recorded_world))) \<and>
   filter mutating (trace (snd (run recorded_world))) = [] \<and>
   repo_manager_setting (snd (run recorded_world)) = None \<and>
   downloader_setting (snd (run recorded_world)) = None \<and>
   cog_manager_cogs (snd (run recorded_world)) = Some [] \<and>
   child (snd (run recorded_world)) = None"
proof -
  have load: "IS_JSON recorded_world = Inr True"
    by code_simp
  have gate: "passes_gate recorded_world"
    by code_simp
  have head: "git_sync recorded_world = Ok (''abc'', example_tree)"
    by (simp add: recorded_world_def)
  have existing: "get_existing_commit recorded_world = ''abc''"
    by code_simp
  have files: "repo_manager_setting recorded_world = None"
    "downloader_setting recorded_world = None" "cog_manager_cogs recorded_world = None"
    by (simp_all add: recorded_world_def pylav_image_def empty_world_def)
  show ?thesis
    using equal_commits_up_to_date [OF load gate head existing]
    by (simp add: files filter_empty_conv)
qed

subsection \<open>The gate\<close>

text \<open>
  C3.  The storage type is read when the module is loaded, before the main block
  tests \<^verbatim>\<open>PCX_DISCORDBOT_TAG\<close>.  Outside a container, with neither \<^verbatim>\<open>STORAGE_TYPE\<close>
  in the environment nor \<^verbatim>\<open>/data/config.json\<close> on disk, the run with the tag unset
  ends with an uncaught \<^verbatim>\<open>FileNotFoundError\<close>, not with exit code 0.
\<close>

theorem gate_unset_without_storage_type:
  "environ empty_world ''PCX_DISCORDBOT_TAG'' = None \<and>
   fst (run empty_world) = Uncaught FileNotFoundError"
  by (simp add: run_def IS_JSON_def STORAGE_TYPE_def thenE_def empty_world_def)

text \<open>
  Once the storage type is known, a run whose tag is unset or lacks \<^verbatim>\<open>pylav\<close> exits
  with code 0 and only logs a message.
\<close>

lemma gate_skips:
  assumes "IS_JSON w = Inr is_json" and "\<not> passes_gate w"
  shows "run w = (Exit 0, log_info Skipping (start w))"
  using assms by (simp add: run_def main_block_def)

subsection \<open>The guarded block\<close>

text \<open>
  C2 as stated covers the install phase.  The copy of the plugins and the start of
  the installer come before the \<^verbatim>\<open>try\<close> statement: a plugin whose manifest is not
  JSON makes \<^verbatim>\<open>install_requirements\<close> raise, and the run ends with the uncaught
  exception instead of exit code 0.
\<close>

theorem malformed_manifest_uncaught:
  "fst (run broken_manifest_world) = Uncaught JSONDecodeError"
  by code_simp

lemma cleanup_result:
  "fst (cleanup process w) = Exit 0"
  "trace (snd (cleanup process w)) =
     trace w @ (if process \<noteq> None then [Kill, Terminate] else [])"
  "child (snd (cleanup process w)) \<noteq> Some Running \<or> process = None"
  by (simp_all add: cleanup_def kill_def terminate_def)

text \<open>
  An exception raised inside the \<^verbatim>\<open>try\<close> statement is caught and logged; the
  \<^verbatim>\<open>finally\<close> clause signals the installer and exits with code 0.
\<close>

lemma try_finally_suppresses:
  assumes "fst (guarded is_json current_commit cogs process w) = Raise e"
  shows "fst (try_finally is_json current_commit cogs process w) = Exit 0 \<and>
         Log (Failed e) \<in> set (trace (snd (try_finally is_json current_commit cogs process w))) \<and>
         (process \<noteq> None \<longrightarrow>
            Kill \<in> set (trace (snd (try_finally is_json current_commit cogs process w))) \<and>
            Terminate \<in> set (trace (snd (try_finally is_json current_commit cogs process w))) \<and>
            child (snd (try_finally is_json current_commit cogs process w)) \<noteq> Some Running)"
proof -
  obtain w1 where g: "guarded is_json current_commit cogs process w = (Raise e, w1)"
    using assms by (cases "guarded is_json current_commit cogs process w") auto
  then have t: "try_finally is_json current_commit cogs process w =
                  cleanup process (log_info (Failed e) w1)"
    by (simp add: try_finally_def)
  show ?thesis
    using cleanup_result [of process "log_info (Failed e) w1"]
    by (auto simp: t)
qed

text \<open>The install path is the install steps followed by the \<^verbatim>\<open>try\<close> statement.\<close>

lemma install_path_steps:
  "install_path is_json current_commit cogs w =
     (case install_steps is_json cogs w of
        (Ok process, w1) \<Rightarrow> try_finally is_json current_commit cogs process w1
      | (Raise e, w1) \<Rightarrow> (Uncaught e, w1)
      | (Hangs, w1) \<Rightarrow> (Hang, w1))"
  by (simp add: install_path_def install_steps_def then_do_def done_io_def
        split: prod.splits result.splits)

text \<open>A run whose commits differ continues as the install path.\<close>

lemma run_install_path:
  assumes "IS_JSON w = Inr is_json" and "passes_gate w"
    and "git_sync w = Ok (current_commit, es)"
    and "current_commit \<noteq> get_existing_commit w"
    and "get_pylav_cogs is_json (at_comparison is_json w) = Inr cogs"
  shows "run w = install_path is_json current_commit cogs (at_comparison is_json w)"
proof -
  let ?w1 = "make_folders is_json (start w)"
  have "git_sync ?w1 = Ok (current_commit, es)"
    using assms(3) by simp
  note sync0 = clone_or_update_ok [OF this, of is_json]
  define m where "m = (if (case working_copy is_json ?w1 of None \<Rightarrow> False
                           | Some es \<Rightarrow> ''.git'' \<in> fst ` set es)
                       then UpdatingRepo else CloningRepo)"
  have sync: "clone_or_update_pylav_repo is_json ?w1 =
             (Ok current_commit, set_working_copy is_json es (effect Git (log_info m ?w1)))"
    unfolding m_def by (rule sync0)
  have w2: "at_comparison is_json w = set_working_copy is_json es (effect Git (log_info m ?w1))"
    by (simp add: at_comparison_def sync)
  have same: "get_existing_commit (at_comparison is_json w) = get_existing_commit w"
    by (simp add: w2)
  have "main_block is_json (start w) =
          install_path is_json current_commit cogs (at_comparison is_json w)"
    using assms(2,4,5) sync same by (simp add: main_block_def w2)
  then show ?thesis
    using assms(1) by (simp add: run_def)
qed

text \<open>
  C2, as amended.  In a run that reaches the install path, an exception raised
  inside the \<^verbatim>\<open>try\<close> statement (the update of the registries with the generated
  payload, the record of the commit, the wait for the installer) is caught and
  logged, the process exits with code 0, and an installer that was started is killed
  and terminated before the exit.  An exception raised by the install steps before
  the \<^verbatim>\<open>try\<close> statement (the copy of the plugins, the collection of the
  requirements, the start of the installer) is not caught: the process ends with it.
\<close>

theorem exceptions_of_the_install_path:
  assumes "IS_JSON w = Inr is_json" and "passes_gate w"
    and "git_sync w = Ok (current_commit, es)"
    and "current_commit \<noteq> get_existing_commit w"
    and "get_pylav_cogs is_json (at_comparison is_json w) = Inr cogs"
  shows "(\<forall>e. fst (install_steps is_json cogs (at_comparison is_json w)) = Raise e \<longrightarrow>
              fst (run w) = Uncaught e) \<and>
         (\<forall>process e.
            fst (install_steps is_json cogs (at_comparison is_json w)) = Ok process \<and>
            fst (guarded is_json current_commit cogs process
                   (snd (install_steps is_json cogs (at_comparison is_json w)))) = Raise e \<longrightarrow>
            fst (run w) = Exit 0 \<and>
            Log (Failed e) \<in> set (trace (snd (run w))) \<and>
            (process \<noteq> None \<longrightarrow>
               Kill \<in> set (trace (snd (run w))) \<and>
               Terminate \<in> set (trace (snd (run w))) \<and>
               child (snd (run w)) \<noteq> Some Running))"
proof -
  let ?w2 = "at_comparison is_json w"
  have run: "run w = install_path is_json current_commit cogs ?w2"
    by (rule run_install_path [OF assms])
  have before: "fst (run w) = Uncaught e" if "fst (install_steps is_json cogs ?w2) = Raise e" for e
  proof -
    obtain r w3 where steps: "install_steps is_json cogs ?w2 = (r, w3)"
      by (cases "install_steps is_json cogs ?w2")
    with that have "r = Raise e"
      by simp
    with steps show ?thesis
      by (simp add: run install_path_steps)
  qed
  have inside: "fst (run w) = Exit 0 \<and>
            Log (Failed e) \<in> set (trace (snd (run w))) \<and>
            (process \<noteq> None \<longrightarrow>
               Kill \<in> set (trace (snd (run w))) \<and>
               Terminate \<in> set (trace (snd (run w))) \<and>
               child (snd (run w)) \<noteq> Some Running)"
    if steps: "fst (install_steps is_json cogs ?w2) = Ok process"
      and raised: "fst (guarded is_json current_commit cogs process
                     (snd (install_steps is_json cogs ?w2))) = Raise e"
    for process e
  proof -
    obtain r w3 where pair: "install_steps is_json cogs ?w2 = (r, w3)"
      by (cases "install_steps is_json cogs ?w2")
    with steps have "r = Ok process"
      by simp
    with pair have "run w = try_finally is_json current_commit cogs process
                         (snd (install_steps is_json cogs ?w2))"
      by (simp add: run install_path_steps)
    with try_finally_suppresses [OF raised] show ?thesis
      by simp
  qed
  from before inside show ?thesis
    by blast
qed

text \<open>
  A manifest that is not JSON ends the run with the exception; a Downloader registry
  that is not JSON is logged, the installer that was started is killed, and the exit
  code is 0.
\<close>

theorem exceptions_of_the_install_path_witness:
  "fst (run broken_manifest_world) = Uncaught JSONDecodeError \<and>
   fst (run broken_downloader_world) = Exit 0 \<and>
   Log (Failed JSONDecodeError) \<in> set (trace (snd (run broken_downloader_world))) \<and>
   Kill \<in> set (trace (snd (run broken_downloader_world))) \<and>
   Terminate \<in> set (trace (snd (run broken_downloader_world))) \<and>
   child (snd (run broken_downloader_world)) \<noteq> Some Running"
proof -
  have load: "IS_JSON broken_manifest_world = Inr True" by code_simp
  have open_gate: "passes_gate broken_manifest_world" by code_simp
  have head: "git_sync broken_manifest_world =
      Ok (''abc'', [(''plbroken'', Dir [(''info.json'', File Malformed)])])"
    by (simp add: broken_manifest_world_def)
  have changed: "''abc'' \<noteq> get_existing_commit broken_manifest_world" by code_simp
  have cogs: "get_pylav_cogs True (at_comparison True broken_manifest_world) =
      Inr [(''plbroken'', [''data'', ''cogs'', ''RepoManager'', ''repos'', ''pylav'', ''plbroken''])]"
    by code_simp
  have before: "fst (install_steps True
      [(''plbroken'', [''data'', ''cogs'', ''RepoManager'', ''repos'', ''pylav'', ''plbroken''])]
      (at_comparison True broken_manifest_world)) = Raise JSONDecodeError"
    by code_simp
  have load2: "IS_JSON broken_downloader_world = Inr True" by code_simp
  have open_gate2: "passes_gate broken_downloader_world" by code_simp
  have head2: "git_sync broken_downloader_world = Ok (''abc'', example_tree)"
    by (simp add: broken_downloader_world_def first_run_world_def)
  have changed2: "''abc'' \<noteq> get_existing_commit broken_downloader_world" by code_simp
  have cogs2: "get_pylav_cogs True (at_comparison True broken_downloader_world) = Inr example_cogs"
    by code_simp
  have steps2: "fst (install_steps True example_cogs (at_comparison True broken_downloader_world)) =
      Ok (Some Popen_handle)"
    by code_simp
  have inside2: "fst (guarded True ''abc'' example_cogs (Some Popen_handle)
      (snd (install_steps True example_cogs (at_comparison True broken_downloader_world)))) =
      Raise JSONDecodeError"
    by code_simp
  from exceptions_of_the_install_path [OF load open_gate head changed cogs] before
  have "fst (run broken_manifest_world) = Uncaught JSONDecodeError"
    by blast
  moreover from exceptions_of_the_install_path [OF load2 open_gate2 head2 changed2 cogs2]
    steps2 inside2
  have "fst (run broken_downloader_world) = Exit 0 \<and>
        Log (Failed JSONDecodeError) \<in> set (trace (snd (run broken_downloader_world))) \<and>
        Kill \<in> set (trace (snd (run broken_downloader_world))) \<and>
        Terminate \<in> set (trace (snd (run broken_downloader_world))) \<and>
        child (snd (run broken_downloader_world)) \<noteq> Some Running"
    by blast
  ultimately show ?thesis
    by blast
qed

text \<open>No exception leaves the \<^verbatim>\<open>try\<close> statement.\<close>

lemma try_finally_never_uncaught:
  "fst (try_finally is_json current_commit cogs process w) \<noteq> Uncaught e"
  by (simp add: try_finally_def cleanup_def split: prod.splits result.splits)

subsection \<open>Nested assignment and the registries\<close>

lemma getitem_at_append:
  "getitem_at d (ps @ qs) = thenE (getitem_at d ps) (\<lambda>c. getitem_at c qs)"
  by (induction ps arbitrary: d) (auto simp: thenE_def split: sum.splits)

lemma getitem_setitem:
  "setitem d k v = Inr d' \<Longrightarrow> getitem d' q = (if q = k then Inr v else getitem d q)"
  by (cases d) (auto simp: update_conv')



text \<open>
  C7.  When the RepoManager registry on disk already maps \<^verbatim>\<open>pylav\<close> to \<^verbatim>\<open>master\<close>
  under \<^verbatim>\<open>170708480\<close>, \<^verbatim>\<open>GLOBAL\<close>, \<^verbatim>\<open>repos\<close>, the update succeeds, only logs a
  message and writes nothing: the document on disk is unchanged.
\<close>

theorem repo_manager_update_idempotent:
  assumes "repo_manager_setting w = Some (Doc d)"
    and "getitem_at d [''170708480'', ''GLOBAL'', ''repos''] = Inr (JObj repos)"
    and "map_of repos ''pylav'' = Some (JStr ''master'')"
  shows "create_or_update_repo_manager_setting w =
           (Ok (), log_info UpdatingRepoManagerSetting w) \<and>
         repo_manager_setting (log_info UpdatingRepoManagerSetting w) = Some (Doc d) \<and>
         trace (log_info UpdatingRepoManagerSetting w) =
           trace w @ [Log UpdatingRepoManagerSetting]"
proof -
  from assms(3) have "''pylav'' \<in> fst ` set repos"
    by (metis map_of_eq_None_iff option.distinct(1))
  then have "thenE (getitem_at d [''170708480'', ''GLOBAL'', ''repos'']) (contains ''pylav'') = Inr True"
    using assms(2) by (simp add: thenE_def)
  then show ?thesis
    using assms(1) by (simp add: create_or_update_repo_manager_setting_def Let_def)
qed

text \<open>A registry with another repository beside \<^verbatim>\<open>pylav\<close>.\<close>

theorem repo_manager_update_idempotent_witness:
  "create_or_update_repo_manager_setting registry_world =
     (Ok (), log_info UpdatingRepoManagerSetting registry_world) \<and>
   repo_manager_setting (log_info UpdatingRepoManagerSetting registry_world) =
     Some (Doc repo_manager_doc) \<and>
   trace (log_info UpdatingRepoManagerSetting registry_world) =
     trace registry_world @ [Log UpdatingRepoManagerSetting]"
proof -
  have on_disk: "repo_manager_setting registry_world = Some (Doc repo_manager_doc)"
    by (simp add: registry_world_def)
  have repos: "getitem_at repo_manager_doc [''170708480'', ''GLOBAL'', ''repos''] =
      Inr (JObj [(''other'', JStr ''main''), (''pylav'', JStr ''master'')])"
    by (simp add: repo_manager_doc_def thenE_def)
  have pair: "map_of [(''other'', JStr ''main''), (''pylav'', JStr ''master'')] ''pylav'' =
      Some (JStr ''master'')"
    by simp
  show ?thesis
    by (rule repo_manager_update_idempotent [OF on_disk repos pair])
qed

text \<open>
  After any update that succeeded, a second update finds \<^verbatim>\<open>pylav\<close> and writes nothing.
\<close>

lemma setitem_at_contains:
  "setitem_at ps k v d = Inr d' \<Longrightarrow> thenE (getitem_at d' ps) (contains k) = Inr True"
proof (induction ps arbitrary: d d')
  case Nil
  then show ?case
    by (cases d) (auto simp: thenE_def dom_update)
next
  case (Cons p ps)
  from Cons.prems obtain c c' where c: "getitem d p = Inr c"
    and c': "setitem_at ps k v c = Inr c'" and d': "setitem d p c' = Inr d'"
    by (auto simp: thenE_def split: sum.splits)
  from Cons.IH [OF c'] d' show ?case
    by (simp add: getitem_setitem thenE_def)
qed

lemma repo_manager_update_twice:
  assumes "create_or_update_repo_manager_setting w = (Ok (), w1)"
  shows "create_or_update_repo_manager_setting w1 =
           (Ok (), log_info UpdatingRepoManagerSetting w1)"
proof (cases "repo_manager_setting w")
  case None
  with assms have "repo_manager_setting w1 = Some (Doc
      (JObj [(''170708480'', JObj [(''GLOBAL'', JObj [(''repos'',
         JObj [(''pylav'', JStr ''master'')])])])]))"
    by (auto simp: create_or_update_repo_manager_setting_def write_repo_manager_setting_def
          Let_def split: if_splits)
  then show ?thesis
    by (simp add: create_or_update_repo_manager_setting_def thenE_def Let_def)
next
  case (Some f)
  with assms obtain d where f: "f = Doc d"
    by (cases f) (auto simp: create_or_update_repo_manager_setting_def Let_def)
  show ?thesis
  proof (cases "thenE (getitem_at d [''170708480'', ''GLOBAL'', ''repos'']) (contains ''pylav'')")
    case (Inl e)
    with assms Some f show ?thesis
      by (simp add: create_or_update_repo_manager_setting_def Let_def)
  next
    case (Inr present)
    show ?thesis
    proof (cases present)
      case True
      with assms Some f Inr have "w1 = log_info UpdatingRepoManagerSetting w"
        by (simp add: create_or_update_repo_manager_setting_def Let_def)
      with Some f Inr True show ?thesis
        by (simp add: create_or_update_repo_manager_setting_def Let_def)
    next
      case False
      with assms Some f Inr obtain d' where
        d': "setitem_at [''170708480'', ''GLOBAL'', ''repos''] ''pylav'' (JStr ''master'') d = Inr d'"
        and w1: "w1 = write_repo_manager_setting d' (log_info UpdatingRepoManagerSetting w)"
        by (auto simp: create_or_update_repo_manager_setting_def Let_def split: sum.splits)
      from setitem_at_contains [OF d'] w1 show ?thesis
        by (simp add: create_or_update_repo_manager_setting_def write_repo_manager_setting_def Let_def)
    qed
  qed
qed






subsection \<open>The recorded commit across runs\<close>

lemma universal_newlines_id: "CHR 0x0D \<notin> set s \<Longrightarrow> universal_newlines s = s"
  by (induction s rule: universal_newlines.induct) auto

text \<open>
  C10.  The script creates three folders, and the folder \<^verbatim>\<open>/data/pylav\<close> of the commit
  file only as the parent of the working copy of a storage that is not JSON.  On a
  JSON storage with a new \<^verbatim>\<open>/data\<close>, \<^verbatim>\<open>update_existing_commit\<close> raises
  \<^verbatim>\<open>FileNotFoundError\<close>, which the \<^verbatim>\<open>try\<close> statement swallows: the first run exits
  with code 0 and leaves no commit file, \<^verbatim>\<open>get_existing_commit\<close> still returns the
  empty string, and the second run, at the same commit of the repository, is not up
  to date: it starts the installer again.
\<close>

theorem commit_not_recorded_on_json_storage:
  "IS_JSON first_run_world = Inr True \<and>
   data_pylav first_run_world = None \<and>
   fst (update_existing_commit ''abc'' first_run_world) = Raise FileNotFoundError \<and>
   get_existing_commit (snd (update_existing_commit ''abc'' first_run_world)) = [] \<and>
   fst (run first_run_world) = Exit 0 \<and>
   Log (Failed FileNotFoundError) \<in> set (trace (snd (run first_run_world))) \<and>
   get_existing_commit (snd (run first_run_world)) = [] \<and>
   git_sync (snd (run first_run_world)) = Ok (''abc'', example_tree) \<and>
   fst (run (snd (run first_run_world))) = Exit 0 \<and>
   Log UpToDate \<notin> set (trace (snd (run (snd (run first_run_world))))) \<and>
   Popen {JStr ''a'', JStr ''b'', JStr ''c''} \<in> set (trace (snd (run (snd (run first_run_world)))))"
  by code_simp

text \<open>On a JSON storage no step of the run creates the folder of the commit file.\<close>

lemma then_do_no_pylav_folder:
  assumes "\<And>w. no_pylav_folder w \<Longrightarrow> no_pylav_folder (snd (m w))"
    and "\<And>x w. no_pylav_folder w \<Longrightarrow> no_pylav_folder (snd (f x w))"
    and "no_pylav_folder w"
  shows "no_pylav_folder (snd (then_do m f w))"
  using assms(1) [OF assms(3)] assms(2)
  by (auto simp: then_do_def split: prod.splits result.splits)

lemma no_pylav_folder_effect [simp]:
  "no_pylav_folder (effect ev w) = no_pylav_folder w"
  "no_pylav_folder (log_info m w) = no_pylav_folder w"
  by (simp_all add: no_pylav_folder_def)

lemma no_pylav_folder_update [simp]:
  "no_pylav_folder (w\<lparr>cog_manager_cogs := x\<rparr>) = no_pylav_folder w"
  "no_pylav_folder (w\<lparr>child := c\<rparr>) = no_pylav_folder w"
  "no_pylav_folder (w\<lparr>repo_manager_setting := r\<rparr>) = no_pylav_folder w"
  "no_pylav_folder (w\<lparr>downloader_setting := r\<rparr>) = no_pylav_folder w"
  "no_pylav_folder (w\<lparr>downloader_lib := b\<rparr>) = no_pylav_folder w"
  "no_pylav_folder (w\<lparr>repos_pylav := es\<rparr>) = no_pylav_folder w"
  "no_pylav_folder (w\<lparr>trace := t\<rparr>) = no_pylav_folder w"
  by (simp_all add: no_pylav_folder_def)

lemma no_pylav_folder_copy_and_overwrite:
  "no_pylav_folder w \<Longrightarrow> no_pylav_folder (snd (copy_and_overwrite b from_path to_path w))"
  by (auto simp: copy_and_overwrite_def Let_def split: option.splits node.splits)

lemma no_pylav_folder_for_each:
  assumes "\<And>x w. no_pylav_folder w \<Longrightarrow> no_pylav_folder (snd (body x w))"
  shows "no_pylav_folder w \<Longrightarrow> no_pylav_folder (snd (for_each body xs w))"
proof (induction xs arbitrary: w)
  case Nil
  then show ?case by simp
next
  case (Cons x xs)
  show ?case
    using assms Cons.IH Cons.prems by (simp add: then_do_no_pylav_folder)
qed

lemma no_pylav_folder_install_or_update:
  "no_pylav_folder w \<Longrightarrow> no_pylav_folder (snd (install_or_update_pylav_cogs b cogs w))"
  by (simp add: install_or_update_pylav_cogs_def no_pylav_folder_for_each
        no_pylav_folder_copy_and_overwrite)

lemma no_pylav_folder_Popen_pip:
  "no_pylav_folder w \<Longrightarrow> no_pylav_folder (snd (Popen_pip reqs w))"
  by (simp add: Popen_pip_def split: option.splits)

lemma no_pylav_folder_tail_output:
  "no_pylav_folder w \<Longrightarrow> no_pylav_folder (snd (tail_output ls w))"
  by (induction ls arbitrary: w) (simp_all add: Let_def)

lemma no_pylav_folder_install_requirements:
  "no_pylav_folder w \<Longrightarrow> no_pylav_folder (snd (install_requirements b cogs w))"
  by (auto simp: install_requirements_def no_pylav_folder_Popen_pip no_pylav_folder_tail_output
        intro!: then_do_no_pylav_folder split: sum.splits)

lemma no_pylav_folder_downloader:
  "no_pylav_folder w \<Longrightarrow> no_pylav_folder (snd (create_or_update_downloader_setting data w))"
  by (auto simp: create_or_update_downloader_setting_def write_downloader_setting_def Let_def
        split: option.splits sum.splits)

lemma no_pylav_folder_repo_manager:
  "no_pylav_folder w \<Longrightarrow> no_pylav_folder (snd (create_or_update_repo_manager_setting w))"
  by (auto simp: create_or_update_repo_manager_setting_def write_repo_manager_setting_def Let_def
        split: option.splits sum.splits bool.splits)

lemma update_existing_commit_needs_folder:
  "no_pylav_folder w \<Longrightarrow> update_existing_commit c w = (Raise FileNotFoundError, w)"
  by (simp add: update_existing_commit_def no_pylav_folder_def)

lemma no_pylav_folder_wait: "no_pylav_folder w \<Longrightarrow> no_pylav_folder (snd (wait w))"
  by (simp add: wait_def)

lemma no_pylav_folder_guarded:
  "no_pylav_folder w \<Longrightarrow> no_pylav_folder (snd (guarded True c cogs process w))"
  unfolding guarded_def Let_def
  by (intro then_do_no_pylav_folder)
     (simp_all add: no_pylav_folder_downloader no_pylav_folder_repo_manager
        update_existing_commit_needs_folder no_pylav_folder_wait done_io_def
        then_do_no_pylav_folder)

lemma no_pylav_folder_cleanup:
  "no_pylav_folder w \<Longrightarrow> no_pylav_folder (snd (cleanup process w))"
  by (simp add: cleanup_def kill_def terminate_def)

lemma no_pylav_folder_try_finally:
  assumes "no_pylav_folder w"
  shows "no_pylav_folder (snd (try_finally True c cogs process w))"
proof -
  obtain r w1 where g: "guarded True c cogs process w = (r, w1)"
    by (cases "guarded True c cogs process w")
  with no_pylav_folder_guarded [OF assms, of c cogs process] have "no_pylav_folder w1" by simp
  then show ?thesis
    by (cases r) (simp_all add: try_finally_def g no_pylav_folder_cleanup)
qed

lemma no_pylav_folder_install_path:
  assumes "no_pylav_folder w"
  shows "no_pylav_folder (snd (install_path True c cogs w))"
proof -
  obtain r1 w1 where s1: "install_or_update_pylav_cogs True cogs w = (r1, w1)"
    by (cases "install_or_update_pylav_cogs True cogs w")
  have q1: "no_pylav_folder w1"
    using s1 no_pylav_folder_install_or_update [OF assms, of True cogs] by simp
  obtain r2 w2 where s2: "install_requirements True cogs w1 = (r2, w2)"
    by (cases "install_requirements True cogs w1")
  have q2: "no_pylav_folder w2"
    using no_pylav_folder_install_requirements [OF q1, of True cogs] s2 by simp
  show ?thesis
    using q1 q2 no_pylav_folder_try_finally [OF q2]
    by (cases r1; cases r2) (simp_all add: install_path_def s1 s2)
qed

lemma no_pylav_folder_make_folders:
  "no_pylav_folder w \<Longrightarrow> no_pylav_folder (make_folders True w)"
  by (simp add: make_folders_def Let_def set_working_copy_def no_pylav_folder_def)

lemma no_pylav_folder_clone_or_update:
  "no_pylav_folder w \<Longrightarrow> no_pylav_folder (snd (clone_or_update_pylav_repo True w))"
  by (simp add: clone_or_update_pylav_repo_def Let_def set_working_copy_def no_pylav_folder_def
        split: result.splits)

lemma no_pylav_folder_main_block:
  assumes "no_pylav_folder w"
  shows "no_pylav_folder (snd (main_block True w))"
proof -
  obtain r w2 where s: "clone_or_update_pylav_repo True (make_folders True w) = (r, w2)"
    by (cases "clone_or_update_pylav_repo True (make_folders True w)")
  have q: "no_pylav_folder w2"
    using no_pylav_folder_clone_or_update [OF no_pylav_folder_make_folders [OF assms]] s by simp
  show ?thesis
    using assms q no_pylav_folder_install_path [OF q]
    by (cases r) (simp_all add: main_block_def s Let_def split: sum.splits)
qed

text \<open>
  This is so for every world: on a JSON storage nothing creates the folder, so that no
  run ever records the commit.
\<close>

lemma json_storage_never_records_the_commit:
  assumes "IS_JSON w = Inr True" and "data_pylav w = None"
  shows "data_pylav (snd (run w)) = None \<and> get_existing_commit (snd (run w)) = []"
proof -
  have "no_pylav_folder (start w)"
    using assms(2) by (simp add: no_pylav_folder_def)
  from no_pylav_folder_main_block [OF this] assms(1)
  have "data_pylav (snd (run w)) = None"
    by (simp add: run_def no_pylav_folder_def)
  then show ?thesis
    by (simp add: get_existing_commit_def commit_file_def)
qed

text \<open>
  Where the folder exists the commit is recorded and found again.  The file is read in
  text mode; a revision hash holds no carriage return, so it is read back as written,
  and the next run at the same commit is up to date.
\<close>

lemma commit_round_trip:
  assumes "CHR 0x0D \<notin> set s" and "update_existing_commit s w = (Ok (), w1)"
  shows "get_existing_commit w1 = s \<and>
         (\<forall>w2 is_json es.
            commit_file w2 = commit_file w1 \<and> IS_JSON w2 = Inr is_json \<and> passes_gate w2 \<and>
            git_sync w2 = Ok (s, es) \<longrightarrow>
            fst (run w2) = Exit 0 \<and> Log UpToDate \<in> set (trace (snd (run w2))))"
proof -
  from assms(2) have "commit_file w1 = Some s"
    by (auto simp: update_existing_commit_def commit_file_def split: option.splits)
  with assms(1) have read: "get_existing_commit w1 = s"
    by (simp add: get_existing_commit_def universal_newlines_id)
  have "fst (run w2) = Exit 0 \<and> Log UpToDate \<in> set (trace (snd (run w2)))"
    if "commit_file w2 = commit_file w1" "IS_JSON w2 = Inr is_json" "passes_gate w2"
       "git_sync w2 = Ok (s, es)" for w2 is_json es
  proof -
    from that(1) read have "get_existing_commit w2 = s"
      by (simp add: get_existing_commit_def)
    from run_up_to_date [OF that(2) that(3) that(4) this] show ?thesis
      by auto
  qed
  with read show ?thesis by blast
qed

text \<open>Text mode itself turns a carriage return into a line feed.\<close>

lemma carriage_return_becomes_line_feed:
  "universal_newlines [CHR ''a'', CHR 0x0D, CHR ''b''] = [CHR ''a'', CHR 0x0A, CHR ''b'']"
  by simp

subsection \<open>The install path never reports an up-to-date repository\<close>

lemma then_do_quiet:
  assumes "\<And>w. quiet w \<Longrightarrow> quiet (snd (m w))"
    and "\<And>x w. quiet w \<Longrightarrow> quiet (snd (f x w))"
    and "quiet w"
  shows "quiet (snd (then_do m f w))"
  using assms(1) [OF assms(3)] assms(2)
  by (auto simp: then_do_def split: prod.splits result.splits)

lemma quiet_effect [simp]: "quiet (effect ev w) \<longleftrightarrow> quiet w \<and> ev \<noteq> Log UpToDate"
  by (auto simp: quiet_def)

lemma quiet_log_info [simp]: "quiet (log_info m w) \<longleftrightarrow> quiet w \<and> m \<noteq> UpToDate"
  by (auto simp: quiet_def)

lemma quiet_update [simp]:
  "quiet (w\<lparr>cog_manager_cogs := x\<rparr>) = quiet w"
  "quiet (w\<lparr>child := c\<rparr>) = quiet w"
  "quiet (w\<lparr>data_pylav := p\<rparr>) = quiet w"
  "quiet (w\<lparr>repo_manager_setting := r\<rparr>) = quiet w"
  "quiet (w\<lparr>downloader_setting := r\<rparr>) = quiet w"
  "quiet (w\<lparr>downloader_lib := b\<rparr>) = quiet w"
  "quiet (w\<lparr>repos_pylav := es\<rparr>) = quiet w"
  by (simp_all add: quiet_def)

lemma quiet_copy_and_overwrite:
  "quiet w \<Longrightarrow> quiet (snd (copy_and_overwrite b from_path to_path w))"
  by (auto simp: copy_and_overwrite_def Let_def split: option.splits node.splits)

lemma quiet_for_each:
  assumes "\<And>x w. quiet w \<Longrightarrow> quiet (snd (body x w))"
  shows "quiet w \<Longrightarrow> quiet (snd (for_each body xs w))"
proof (induction xs arbitrary: w)
  case Nil
  then show ?case by simp
next
  case (Cons x xs)
  show ?case
    using assms Cons.IH Cons.prems by (simp add: then_do_quiet)
qed

lemma quiet_install_or_update:
  "quiet w \<Longrightarrow> quiet (snd (install_or_update_pylav_cogs b cogs w))"
  by (simp add: install_or_update_pylav_cogs_def quiet_for_each quiet_copy_and_overwrite)

lemma quiet_Popen_pip: "quiet w \<Longrightarrow> quiet (snd (Popen_pip reqs w))"
  by (simp add: Popen_pip_def split: option.splits)

lemma quiet_tail_output: "quiet w \<Longrightarrow> quiet (snd (tail_output ls w))"
  by (induction ls arbitrary: w) (simp_all add: Let_def)

lemma quiet_install_requirements:
  "quiet w \<Longrightarrow> quiet (snd (install_requirements b cogs w))"
  by (auto simp: install_requirements_def quiet_Popen_pip quiet_tail_output
        intro!: then_do_quiet split: sum.splits)

lemma quiet_downloader:
  "quiet w \<Longrightarrow> quiet (snd (create_or_update_downloader_setting data w))"
  by (auto simp: create_or_update_downloader_setting_def write_downloader_setting_def Let_def
        split: option.splits sum.splits)

lemma quiet_repo_manager:
  "quiet w \<Longrightarrow> quiet (snd (create_or_update_repo_manager_setting w))"
  by (auto simp: create_or_update_repo_manager_setting_def write_repo_manager_setting_def Let_def
        split: option.splits sum.splits bool.splits)

lemma quiet_update_existing_commit:
  "quiet w \<Longrightarrow> quiet (snd (update_existing_commit c w))"
  by (auto simp: update_existing_commit_def split: option.splits)

lemma quiet_wait: "quiet w \<Longrightarrow> quiet (snd (wait w))"
  by (simp add: wait_def)

lemma quiet_guarded:
  "quiet w \<Longrightarrow> quiet (snd (guarded b c cogs process w))"
  unfolding guarded_def Let_def
  by (intro then_do_quiet)
     (simp_all add: quiet_downloader quiet_repo_manager quiet_update_existing_commit
        quiet_wait done_io_def then_do_quiet)

lemma quiet_cleanup: "quiet w \<Longrightarrow> quiet (snd (cleanup process w))"
  by (simp add: cleanup_def kill_def terminate_def)

lemma quiet_try_finally:
  assumes "quiet w"
  shows "quiet (snd (try_finally b c cogs process w))"
proof -
  obtain r w1 where g: "guarded b c cogs process w = (r, w1)"
    by (cases "guarded b c cogs process w")
  with quiet_guarded [OF assms, of b c cogs process] have "quiet w1" by simp
  then show ?thesis
    by (cases r) (simp_all add: try_finally_def g quiet_cleanup)
qed

lemma quiet_install_path:
  assumes "quiet w"
  shows "quiet (snd (install_path b c cogs w))"
proof -
  obtain r1 w1 where s1: "(if b then install_or_update_pylav_cogs b cogs w else (Ok (), w)) = (r1, w1)"
    by (cases "if b then install_or_update_pylav_cogs b cogs w else (Ok (), w)")
  have q1: "quiet w1"
    using s1 assms quiet_install_or_update [OF assms, of b cogs]
    by (auto split: if_splits)
  obtain r2 w2 where s2: "install_requirements b cogs w1 = (r2, w2)"
    by (cases "install_requirements b cogs w1")
  have q2: "quiet w2"
    using quiet_install_requirements [OF q1, of b cogs] s2 by simp
  show ?thesis
    using q1 q2 quiet_try_finally [OF q2]
    by (cases r1; cases r2) (simp_all add: install_path_def s1 s2)
qed

lemma quiet_make_folders: "quiet w \<Longrightarrow> quiet (make_folders b w)"
  by (simp add: make_folders_def Let_def set_working_copy_def quiet_def)

text \<open>
  C8.  Without a commit file \<^verbatim>\<open>get_existing_commit\<close> returns the empty string, so
  that a non-empty commit of the repository differs from it: the run continues as
  the install path, from the world the sync left, and never reports that PyLav is up
  to date.
\<close>

theorem no_commit_file_means_changed:
  assumes "commit_file w = None"
    and "IS_JSON w = Inr is_json" and "passes_gate w"
    and "git_sync w = Ok (current_commit, es)"
    and "current_commit \<noteq> []"
  shows "get_existing_commit w = [] \<and>
         current_commit \<noteq> get_existing_commit w \<and>
         (\<exists>cogs_mapping.
            get_pylav_cogs is_json
              (snd (clone_or_update_pylav_repo is_json (make_folders is_json (start w)))) =
              Inr cogs_mapping \<and>
            run w = install_path is_json current_commit cogs_mapping
              (snd (clone_or_update_pylav_repo is_json (make_folders is_json (start w))))) \<and>
         Log UpToDate \<notin> set (trace (snd (run w)))"
proof -
  let ?w1 = "make_folders is_json (start w)"
  let ?w2 = "snd (clone_or_update_pylav_repo is_json ?w1)"
  have empty: "get_existing_commit w = []"
    using assms(1) by (simp add: get_existing_commit_def)
  with assms(5) have changed: "current_commit \<noteq> get_existing_commit w"
    by simp
  have "git_sync ?w1 = Ok (current_commit, es)"
    using assms(4) by simp
  note sync0 = clone_or_update_ok [OF this, of is_json]
  define m where "m = (if (case working_copy is_json ?w1 of None \<Rightarrow> False
                           | Some es \<Rightarrow> ''.git'' \<in> fst ` set es)
                       then UpdatingRepo else CloningRepo)"
  have sync: "clone_or_update_pylav_repo is_json ?w1 =
             (Ok current_commit, set_working_copy is_json es (effect Git (log_info m ?w1)))"
    unfolding m_def by (rule sync0)
  have m: "m = UpdatingRepo \<or> m = CloningRepo"
    by (simp add: m_def)
  have w2: "?w2 = set_working_copy is_json es (effect Git (log_info m ?w1))"
    by (simp add: sync)
  have copy: "working_copy is_json ?w2 = Some es"
    by (simp only: w2 working_copy_set)
  have same: "get_existing_commit ?w2 = get_existing_commit w"
    by (simp add: w2)
  have "quiet (start w)"
    by (simp add: quiet_def)
  then have "quiet ?w1"
    by (rule quiet_make_folders)
  with m have q2: "quiet ?w2"
    by (auto simp: w2 quiet_def)
  from get_pylav_cogs_ok [OF copy] obtain cogs where
    cogs: "get_pylav_cogs is_json ?w2 = Inr cogs" by blast
  have "main_block is_json (start w) = install_path is_json current_commit cogs ?w2"
    using assms(3) changed
    using sync cogs same by (simp add: main_block_def w2)
  then have run: "run w = install_path is_json current_commit cogs ?w2"
    using assms(2) by (simp add: run_def)
  have "quiet (snd (run w))"
    unfolding run by (rule quiet_install_path [OF q2])
  with empty changed cogs run show ?thesis
    by (auto simp: quiet_def)
qed

text \<open>A first run on the example repository.\<close>

theorem no_commit_file_means_changed_witness:
  "get_existing_commit first_run_world = [] \<and>
   ''abc'' \<noteq> get_existing_commit first_run_world \<and>
   Log UpToDate \<notin> set (trace (snd (run first_run_world)))"
proof -
  have absent: "commit_file first_run_world = None" by code_simp
  have load: "IS_JSON first_run_world = Inr True" by code_simp
  have gate_open: "passes_gate first_run_world" by code_simp
  have head: "git_sync first_run_world = Ok (''abc'', example_tree)"
    by (simp add: first_run_world_def)
  have nonempty: "''abc'' \<noteq> []" by simp
  from no_commit_file_means_changed [OF absent load gate_open head nonempty]
  show ?thesis by blast
qed

end
